theory Spec2Isabelle
  imports Main "HOL-Library.Word"
begin

section \<open>The ONNXIFI interface as \<^verbatim>\<open>onnxifi_op.h\<close> uses it\<close>

text \<open>
  Handles of the native library (\<^verbatim>\<open>onnxBackendID\<close>, \<^verbatim>\<open>onnxBackend\<close>, \<^verbatim>\<open>onnxGraph\<close>, function
  pointers) are opaque pointers; they are natural numbers here and \<open>nullptr\<close> is \<open>0\<close>.
  A status is the \<^verbatim>\<open>int32_t\<close> the ABI returns. The constants come from \<^verbatim>\<open>onnxifi.h\<close>, a
  third-party header; no theorem below depends on their values beyond
  \<open>ONNXIFI_STATUS_SUCCESS \<noteq> ONNXIFI_STATUS_FALLBACK\<close>.
\<close>

type_synonym onnxStatus = "32 word"
type_synonym onnxBackendID = nat
type_synonym onnxBackend = nat
type_synonym onnxGraph = nat
type_synonym onnxExtensionFunctionPointer = nat

definition nullptr :: nat where
  "nullptr = 0"

definition ONNXIFI_STATUS_SUCCESS :: onnxStatus where
  "ONNXIFI_STATUS_SUCCESS = 0"

definition ONNXIFI_STATUS_FALLBACK :: onnxStatus where
  "ONNXIFI_STATUS_FALLBACK = 1"

definition ONNXIFI_DATATYPE_FLOAT32 :: "64 word" where
  "ONNXIFI_DATATYPE_FLOAT32 = 1"

definition ONNXIFI_BACKEND_PROPERTY_NONE :: "64 word" where
  "ONNXIFI_BACKEND_PROPERTY_NONE = 0"

text \<open>
  \<^verbatim>\<open>onnxTensorDescriptorV1\<close>: the name, the element type, the memory type, the dimensions
  (\<^verbatim>\<open>dimensions\<close> and \<^verbatim>\<open>shape\<close> of the C struct are one list here) and the buffer pointer.
  \<^verbatim>\<open>onnxTensorDescriptorV1()\<close> value-initialises every member.
\<close>

record onnxTensorDescriptorV1 =
  name :: string
  dataType :: "64 word"
  memoryType :: "64 word"
  shape :: "64 word list"
  buffer :: nat

definition onnxTensorDescriptorV1_init :: onnxTensorDescriptorV1 where
  "onnxTensorDescriptorV1_init =
     \<lparr>name = [], dataType = 0, memoryType = 0, shape = [], buffer = nullptr\<rparr>"

text \<open>
  Every call into the library is logged with the status it returned. The library is
  any deterministic function of the calls made so far (the log) and the arguments of
  the present call, so a library with internal state is covered.
  \<^item> \<open>onnxGetBackendIDs_call buf n\<close>: the buffer (\<open>None\<close> for \<^verbatim>\<open>nullptr\<close>, \<open>Some k\<close> for a
    buffer of \<open>k\<close> entries) and the value of \<^verbatim>\<open>*numBackends\<close> on entry;
  \<^item> \<open>onnxInitGraph_call backend model weights\<close>: the backend, the serialized model and the
    weight descriptors.
\<close>

datatype abi_call =
    onnxGetBackendIDs_call "nat option" "64 word"
  | onnxInitBackend_call onnxBackendID "64 word list"
  | onnxReleaseBackendID_call onnxBackendID
  | onnxInitGraph_call onnxBackend string "onnxTensorDescriptorV1 list"
  | onnxGetExtensionFunctionAddress_call onnxBackendID string
  | onnxReleaseGraph_call onnxGraph
  | onnxReleaseBackend_call onnxBackend

type_synonym abi_log = "(abi_call \<times> onnxStatus) list"

text \<open>
  The function table. \<open>onnxGetBackendIDs\<close> returns the status, the identities it wrote
  to the buffer and the new value of \<^verbatim>\<open>*numBackends\<close>; \<open>onnxInitBackend\<close>,
  \<open>onnxInitGraph\<close> and \<open>onnxGetExtensionFunctionAddress\<close> return the status and the
  handle written through the out-pointer.
\<close>

record onnxifi_library =
  onnxGetBackendIDs ::
    "abi_log \<Rightarrow> nat option \<Rightarrow> 64 word \<Rightarrow> onnxStatus \<times> onnxBackendID list \<times> 64 word"
  onnxInitBackend ::
    "abi_log \<Rightarrow> onnxBackendID \<Rightarrow> 64 word list \<Rightarrow> onnxStatus \<times> onnxBackend"
  onnxReleaseBackendID ::
    "abi_log \<Rightarrow> onnxBackendID \<Rightarrow> onnxStatus"
  onnxInitGraph ::
    "abi_log \<Rightarrow> onnxBackend \<Rightarrow> string \<Rightarrow> onnxTensorDescriptorV1 list
       \<Rightarrow> onnxStatus \<times> onnxGraph"
  onnxGetExtensionFunctionAddress ::
    "abi_log \<Rightarrow> onnxBackendID \<Rightarrow> string \<Rightarrow> onnxStatus \<times> onnxExtensionFunctionPointer"
  onnxReleaseGraph ::
    "abi_log \<Rightarrow> onnxGraph \<Rightarrow> onnxStatus"
  onnxReleaseBackend ::
    "abi_log \<Rightarrow> onnxBackend \<Rightarrow> onnxStatus"

text \<open>\<^verbatim>\<open>onnx::BackendGraphInfo\<close>, the value the creator returns and the cache shares.\<close>

record BackendGraphInfo =
  backend_id :: onnxBackendID
  backend :: onnxBackend
  graph :: onnxGraph
  lib :: onnxifi_library

text \<open>
  A failed \<^verbatim>\<open>CAFFE_ENFORCE\<close> throws; the exception is the value \<open>EnforceFailed\<close> with the
  enforced condition (abridged) or its message. \<open>LengthError\<close> is \<^verbatim>\<open>std::length_error\<close> of
  \<^verbatim>\<open>vector::resize\<close>. \<open>UndefinedBehaviour\<close> marks an execution on which C++ promises nothing.
\<close>

datatype error =
    EnforceFailed string
  | LengthError
  | UndefinedBehaviour string

section \<open>Operator arguments\<close>

text \<open>
  The \<^verbatim>\<open>OperatorDef\<close> message, read through the accessors of \<^verbatim>\<open>caffe2/core/operator.h\<close>
  (a file other than the header modelled here): an argument that is absent yields the default the
  caller passes, and the empty list for a repeated argument. An \<^verbatim>\<open>int\<close> argument is a
  32-bit two's complement value.
\<close>

record OperatorDef =
  input_size :: nat
  output_size :: nat
  arg_s :: "string \<rightharpoonup> string"
  arg_i :: "string \<rightharpoonup> 32 word"
  arg_strings :: "string \<rightharpoonup> string list"
  arg_ints :: "string \<rightharpoonup> 32 word list"

definition GetSingleArgument_string :: "OperatorDef \<Rightarrow> string \<Rightarrow> string \<Rightarrow> string" where
  "GetSingleArgument_string operator_def key default_value =
     (case arg_s operator_def key of None \<Rightarrow> default_value | Some v \<Rightarrow> v)"

definition GetSingleArgument_int :: "OperatorDef \<Rightarrow> string \<Rightarrow> 32 word \<Rightarrow> 32 word" where
  "GetSingleArgument_int operator_def key default_value =
     (case arg_i operator_def key of None \<Rightarrow> default_value | Some v \<Rightarrow> v)"

definition GetRepeatedArgument_string :: "OperatorDef \<Rightarrow> string \<Rightarrow> string list" where
  "GetRepeatedArgument_string operator_def key =
     (case arg_strings operator_def key of None \<Rightarrow> [] | Some v \<Rightarrow> v)"

definition GetRepeatedArgument_int :: "OperatorDef \<Rightarrow> string \<Rightarrow> 32 word list" where
  "GetRepeatedArgument_int operator_def key =
     (case arg_ints operator_def key of None \<Rightarrow> [] | Some v \<Rightarrow> v)"

text \<open>\<^verbatim>\<open>c10::str(prefix, n)\<close> for an \<^verbatim>\<open>int n\<close>: the prefix followed by \<open>n\<close> in decimal.\<close>

fun decimal :: "nat \<Rightarrow> string" where
  "decimal n =
     (if n < 10 then [''0123456789'' ! n]
      else decimal (n div 10) @ [''0123456789'' ! (n mod 10)])"

declare decimal.simps [simp del]

definition c10_str :: "string \<Rightarrow> int \<Rightarrow> string" where
  "c10_str prefix n =
     prefix @ (if n < 0 then CHR ''-'' # decimal (nat (- n)) else decimal (nat n))"

section \<open>The operator\<close>

record TensorInfo =
  dims :: "64 word list"
  onnxifi_type :: "64 word"

text \<open>
  The members of \<^verbatim>\<open>OnnxifiOp\<close>; a name cannot end in an underscore here, so each
  carries a prime after it. \<open>onnxSetIOAndRunGraphPointer_'\<close> exists only in a build with
  \<^verbatim>\<open>ONNXIFI_ENABLE_EXT\<close>; without it the field stays \<open>nullptr\<close> and nothing reads it.
\<close>

record OnnxifiOp_members =
  lib_' :: "onnxifi_library option"
  op_id_string_' :: string
  backend_id_' :: onnxBackendID
  backend_' :: onnxBackend
  graph_' :: onnxGraph
  backend_graph_shared_ptr_' :: "BackendGraphInfo option"
  input_desc_' :: "onnxTensorDescriptorV1 list"
  output_desc_' :: "onnxTensorDescriptorV1 list"
  onnxSetIOAndRunGraphPointer_' :: onnxExtensionFunctionPointer
  input_names_' :: "string list"
  output_names_' :: "string list"
  input_shapes_' :: "64 word list list"
  output_shapes_' :: "64 word list list"
  output_shape_hints_' :: "int \<rightharpoonup> TensorInfo"

definition OnnxifiOp_members_init :: OnnxifiOp_members where
  "OnnxifiOp_members_init =
     \<lparr>lib_' = None, op_id_string_' = [], backend_id_' = nullptr, backend_' = nullptr,
      graph_' = nullptr, backend_graph_shared_ptr_' = None, input_desc_' = [],
      output_desc_' = [], onnxSetIOAndRunGraphPointer_' = nullptr, input_names_' = [],
      output_names_' = [], input_shapes_' = [], output_shapes_' = [],
      output_shape_hints_' = Map.empty\<rparr>"

text \<open>
  What the operator is given from outside: the loaded library
  (\<^verbatim>\<open>onnx::initOnnxifiLibrary()\<close>, \<open>None\<close> for a null pointer), the weight descriptors
  (\<^verbatim>\<open>Workspace mapped_ws(ws, input_mapping)\<close> followed by \<^verbatim>\<open>buildInitializationList\<close>, which is
  declared in the header and defined elsewhere; it may throw), the two operations of
  \<^verbatim>\<open>onnx::OnnxBackendGraphMap\<close> (defined elsewhere; \<open>'c\<close> is the state of the map), and
  whether the build defines \<^verbatim>\<open>ONNXIFI_ENABLE_EXT\<close>. None of them is fixed here: the
  operator is modelled for every choice.
\<close>

type_synonym creator_fn = "abi_log \<Rightarrow> (error + BackendGraphInfo) \<times> abi_log"

record ('w, 'c) environment =
  initOnnxifiLibrary :: "onnxifi_library option"
  buildInitializationList ::
    "'w \<Rightarrow> (string \<rightharpoonup> string) \<Rightarrow> string set \<Rightarrow> error + onnxTensorDescriptorV1 list"
  graph_map_insert ::
    "string \<Rightarrow> creator_fn \<Rightarrow> 'c \<Rightarrow> abi_log \<Rightarrow> (error + BackendGraphInfo) \<times> 'c \<times> abi_log"
  graph_map_remove ::
    "string \<Rightarrow> 'c \<Rightarrow> abi_log \<Rightarrow> (error + unit) \<times> 'c \<times> abi_log"
  ONNXIFI_ENABLE_EXT :: bool

subsection \<open>\<^verbatim>\<open>SetOutputShapeAndType\<close>\<close>

text \<open>
  The function returns the type and appends to \<^verbatim>\<open>*dims\<close>; the model returns the type and
  the new contents of \<^verbatim>\<open>*dims\<close>.
\<close>

definition SetOutputShapeAndType ::
  "OnnxifiOp_members \<Rightarrow> int \<Rightarrow> 64 word list \<Rightarrow> 64 word \<times> 64 word list" where
  "SetOutputShapeAndType this output_idx dims_out =
     (case output_shape_hints_' this output_idx of
        Some info \<Rightarrow> (onnxifi_type info, dims_out @ dims info)
      | None \<Rightarrow> (ONNXIFI_DATATYPE_FLOAT32, dims_out))"

subsection \<open>\<^verbatim>\<open>BuildPropertyList\<close>\<close>

definition BuildPropertyList :: "64 word list \<Rightarrow> 64 word list" where
  "BuildPropertyList property_list = property_list @ [ONNXIFI_BACKEND_PROPERTY_NONE]"

subsection \<open>The creator lambda of \<^verbatim>\<open>BuildBackendAndGraph\<close>\<close>

text \<open>
  \<^verbatim>\<open>backend_ids.resize(num_backends)\<close> throws \<^verbatim>\<open>std::length_error\<close> beyond
  \<^verbatim>\<open>max_size()\<close>, which is \<^verbatim>\<open>PTRDIFF_MAX / sizeof(onnxBackendID)\<close> in libstdc++ on a 64-bit
  target. Running out of memory below that bound is not modelled.
\<close>

definition vector_max_size :: "64 word" where
  "vector_max_size = 2 ^ 60 - 1"

text \<open>
  The library writes identities into the buffer it was given; what it writes replaces a
  prefix of the buffer and never its length.
\<close>

definition written_into :: "'a list \<Rightarrow> 'a list \<Rightarrow> 'a list" where
  "written_into buf ws = take (length buf) ws @ drop (length ws) buf"

text \<open>
  \<^verbatim>\<open>for (auto i = 0; i < num_backends; ++i) { if (i == backend_index) continue;
  lib->onnxReleaseBackendID(backend_ids[i]); }\<close>.
  \<open>i\<close> is an \<^verbatim>\<open>int\<close>: incrementing it past \<open>2^31 - 1\<close> is undefined, and so is reading
  \<^verbatim>\<open>backend_ids[i]\<close> beyond the vector. The status of the release is not looked at.
\<close>

function release_unused ::
  "onnxifi_library \<Rightarrow> onnxBackendID list \<Rightarrow> 64 word \<Rightarrow> 32 word \<Rightarrow> nat \<Rightarrow> abi_log
     \<Rightarrow> (error + unit) \<times> abi_log" where
  "release_unused lib' backend_ids num_backends backend_index i log =
     (if 2 ^ 31 \<le> i then (Inl (UndefinedBehaviour ''++i overflows int''), log)
      else if i < unat num_backends then
        (if int i = sint backend_index then
           release_unused lib' backend_ids num_backends backend_index (i + 1) log
         else if length backend_ids \<le> i then
           (Inl (UndefinedBehaviour ''backend_ids[i] out of range''), log)
         else
           release_unused lib' backend_ids num_backends backend_index (i + 1)
             (log @ [(onnxReleaseBackendID_call (backend_ids ! i),
                      onnxReleaseBackendID lib' log (backend_ids ! i))]))
      else (Inr (), log))"
  by pat_completeness auto
termination
  by (relation "measure (\<lambda>(lib', backend_ids, num_backends, backend_index, i, log). 2 ^ 31 - i)")
    auto

declare release_unused.simps [simp del]

text \<open>
  The lambda captures \<open>lib\<close>, \<open>property_pointers\<close>, \<open>backend_index\<close>, the model string and
  the weight descriptors; it is run on the log of the calls made so far. The comparisons
  of \<^verbatim>\<open>CAFFE_ENFORCE_GT\<close> and \<^verbatim>\<open>CAFFE_ENFORCE_LT\<close> are between a \<^verbatim>\<open>size_t\<close> and an \<^verbatim>\<open>int\<close>, so the
  \<^verbatim>\<open>int\<close> is converted to \<^verbatim>\<open>size_t\<close> (\<open>scast\<close>) and the comparison is unsigned, as is the
  index of \<^verbatim>\<open>backend_ids[backend_index]\<close>.
\<close>

definition creator ::
  "onnxifi_library \<Rightarrow> 64 word list \<Rightarrow> 32 word \<Rightarrow> string \<Rightarrow> onnxTensorDescriptorV1 list
     \<Rightarrow> creator_fn" where
  "creator lib' property_pointers backend_index onnx_model_str weight_descs log =
     (case onnxGetBackendIDs lib' log None 0 of (st1, _, num_backends) \<Rightarrow>
      let log1 = log @ [(onnxGetBackendIDs_call None 0, st1)] in
      if st1 \<noteq> ONNXIFI_STATUS_FALLBACK then
        (Inl (EnforceFailed ''onnxGetBackendIDs(nullptr) == FALLBACK''), log1)
      else if \<not> 0 < num_backends then
        (Inl (EnforceFailed ''At least 1 onnxifi backend should be available''), log1)
      else if \<not> (scast backend_index :: 64 word) < num_backends then
        (Inl (EnforceFailed ''Backend idx out of bound''), log1)
      else if vector_max_size < num_backends then (Inl LengthError, log1)
      else
        let buf = replicate (unat num_backends) nullptr in
        (case onnxGetBackendIDs lib' log1 (Some (length buf)) num_backends of
           (st2, ws, num_backends') \<Rightarrow>
         let log2 = log1 @ [(onnxGetBackendIDs_call (Some (length buf)) num_backends, st2)];
             backend_ids = written_into buf ws
         in
         if st2 \<noteq> ONNXIFI_STATUS_SUCCESS then
           (Inl (EnforceFailed ''onnxGetBackendIDs(data) == SUCCESS''), log2)
         else
           let backend_id' = backend_ids ! unat (scast backend_index :: 64 word) in
           (case onnxInitBackend lib' log2 backend_id' property_pointers of (st3, backend') \<Rightarrow>
            let log3 = log2 @ [(onnxInitBackend_call backend_id' property_pointers, st3)] in
            if st3 \<noteq> ONNXIFI_STATUS_SUCCESS then
              (Inl (EnforceFailed ''onnxInitBackend == SUCCESS''), log3)
            else
              (case release_unused lib' backend_ids num_backends' backend_index 0 log3 of
                 (Inl e, log4) \<Rightarrow> (Inl e, log4)
               | (Inr _, log4) \<Rightarrow>
                 (case onnxInitGraph lib' log4 backend' onnx_model_str weight_descs of
                    (st5, graph') \<Rightarrow>
                  let log5 =
                    log4 @ [(onnxInitGraph_call backend' onnx_model_str weight_descs, st5)]
                  in
                  if st5 \<noteq> ONNXIFI_STATUS_SUCCESS then
                    (Inl (EnforceFailed ''onnxInitGraph == SUCCESS''), log5)
                  else
                    (Inr \<lparr>backend_id = backend_id', backend = backend', graph = graph',
                          lib = lib'\<rparr>, log5))))))"

subsection \<open>\<^verbatim>\<open>BuildBackendAndGraph\<close>\<close>

text \<open>The key under which the graph is shared: \<^verbatim>\<open>model_id + ":" + net_pos\<close>.\<close>

definition op_id_string :: "string \<Rightarrow> string \<Rightarrow> string" where
  "op_id_string model_id net_pos = model_id @ '':'' @ net_pos"

text \<open>
  \<open>this\<close> is the object under construction, \<open>c\<close> the state of the shared map and \<open>log\<close>
  the calls made so far. An exception of the creator leaves \<^verbatim>\<open>insert\<close> and the
  constructor. The block under \<^verbatim>\<open>#ifdef ONNXIFI_ENABLE_EXT\<close> is compiled only when the
  environment says so.
\<close>

definition BuildBackendAndGraph ::
  "('w, 'c) environment \<Rightarrow> OperatorDef \<Rightarrow> OnnxifiOp_members \<Rightarrow> 64 word list \<Rightarrow> string
     \<Rightarrow> onnxTensorDescriptorV1 list \<Rightarrow> 'c \<Rightarrow> abi_log
     \<Rightarrow> (error + OnnxifiOp_members) \<times> 'c \<times> abi_log" where
  "BuildBackendAndGraph env operator_def this property_pointers onnx_model_str weight_descs
     c log =
     (let this1 = this\<lparr>op_id_string_' :=
            op_id_string (GetSingleArgument_string operator_def ''model_id'' [])
              (GetSingleArgument_string operator_def ''net_pos'' [])\<rparr>;
          backend_index = GetSingleArgument_int operator_def ''backend_id'' 0
      in
      case lib_' this1 of
        None \<Rightarrow> (Inl (UndefinedBehaviour ''lib_ is null''), c, log)
      | Some lib' \<Rightarrow>
        (case graph_map_insert env (op_id_string_' this1)
                (creator lib' property_pointers backend_index onnx_model_str weight_descs)
                c log of
           (Inl e, c', log') \<Rightarrow> (Inl e, c', log')
         | (Inr info, c', log') \<Rightarrow>
           let this2 = this1\<lparr>backend_graph_shared_ptr_' := Some info,
                              backend_id_' := backend_id info,
                              backend_' := backend info,
                              graph_' := graph info\<rparr>
           in
           if ONNXIFI_ENABLE_EXT env then
             (case onnxGetExtensionFunctionAddress lib' log' (backend_id_' this2)
                     ''onnxSetIOAndRunGraphFunction'' of
                (st, p) \<Rightarrow>
              let log'' = log' @ [(onnxGetExtensionFunctionAddress_call (backend_id_' this2)
                                      ''onnxSetIOAndRunGraphFunction'', st)]
              in
              if st \<noteq> ONNXIFI_STATUS_SUCCESS then
                (Inr (this2\<lparr>onnxSetIOAndRunGraphPointer_' := nullptr\<rparr>), c', log'')
              else
                (Inr (this2\<lparr>onnxSetIOAndRunGraphPointer_' := p\<rparr>), c', log''))
           else (Inr this2, c', log')))"

subsection \<open>The constructor\<close>

text \<open>
  \<^verbatim>\<open>for (const auto& input : input_names_)\<close>: one value-initialised descriptor per name,
  named after it (the C struct holds a pointer to the characters of the name).
\<close>

fun input_loop ::
  "string list \<Rightarrow> onnxTensorDescriptorV1 list \<Rightarrow> onnxTensorDescriptorV1 list" where
  "input_loop [] input_desc = input_desc"
| "input_loop (input # rest) input_desc =
     input_loop rest (input_desc @ [onnxTensorDescriptorV1_init\<lparr>name := input\<rparr>])"

text \<open>
  \<^verbatim>\<open>for (int i = 1; i < output_shape_hint.size(); ++i)
  info.dims.push_back(output_shape_hint[i]);\<close>: each \<^verbatim>\<open>int\<close> is converted to \<^verbatim>\<open>uint64_t\<close>
  (\<open>scast\<close>). A repeated protobuf field has fewer than \<open>2^31\<close> entries, so \<open>i\<close> does not
  overflow.
\<close>

function hint_dims :: "32 word list \<Rightarrow> nat \<Rightarrow> 64 word list \<Rightarrow> 64 word list" where
  "hint_dims output_shape_hint i info_dims =
     (if i < length output_shape_hint then
        hint_dims output_shape_hint (i + 1) (info_dims @ [scast (output_shape_hint ! i)])
      else info_dims)"
  by pat_completeness auto
termination
  by (relation "measure (\<lambda>(output_shape_hint, i, info_dims). length output_shape_hint - i)")
    auto

declare hint_dims.simps [simp del]

text \<open>\<^verbatim>\<open>unordered_map::emplace\<close> keeps the value of a key that is already present.\<close>

definition emplace :: "('k \<rightharpoonup> 'v) \<Rightarrow> 'k \<Rightarrow> 'v \<Rightarrow> ('k \<rightharpoonup> 'v)" where
  "emplace m k v = (case m k of None \<Rightarrow> m(k \<mapsto> v) | Some _ \<Rightarrow> m)"

text \<open>
  \<^verbatim>\<open>for (const auto& output : output_names_)\<close> with the counter \<open>output_idx\<close>: the descriptor
  of the output, and its shape hint when the argument \<^verbatim>\<open>output_shape_hint_<output_idx>\<close> is
  not empty. \<open>hd\<close> is \<^verbatim>\<open>front()\<close> of a list known to be non-empty.
\<close>

fun output_loop ::
  "OperatorDef \<Rightarrow> string list \<Rightarrow> int \<Rightarrow> onnxTensorDescriptorV1 list \<Rightarrow> (int \<rightharpoonup> TensorInfo)
     \<Rightarrow> onnxTensorDescriptorV1 list \<times> (int \<rightharpoonup> TensorInfo)" where
  "output_loop operator_def [] output_idx output_desc hints = (output_desc, hints)"
| "output_loop operator_def (output # rest) output_idx output_desc hints =
     (let output_desc' = output_desc @ [onnxTensorDescriptorV1_init\<lparr>name := output\<rparr>];
          output_shape_hint =
            GetRepeatedArgument_int operator_def (c10_str ''output_shape_hint_'' output_idx);
          hints' =
            (if output_shape_hint \<noteq> [] then
               emplace hints output_idx
                 \<lparr>dims = hint_dims output_shape_hint 1 [],
                  onnxifi_type = scast (hd output_shape_hint)\<rparr>
             else hints)
      in output_loop operator_def rest (output_idx + 1) output_desc' hints')"

text \<open>
  \<^verbatim>\<open>for (auto it = initializers.begin(); it != initializers.end(); ++it) { auto key = *it++;
  input_mapping.emplace(key, *it); initializer_set.emplace(key); }\<close>.
  On a list of odd length the loop would read past the end: that is \<open>None\<close>, and the
  constructor never gets there.
\<close>

fun initializers_loop ::
  "string list \<Rightarrow> (string \<rightharpoonup> string) \<Rightarrow> string set
     \<Rightarrow> ((string \<rightharpoonup> string) \<times> string set) option" where
  "initializers_loop [] input_mapping initializer_set = Some (input_mapping, initializer_set)"
| "initializers_loop [key] input_mapping initializer_set = None"
| "initializers_loop (key # val # rest) input_mapping initializer_set =
     initializers_loop rest (emplace input_mapping key val) (insert key initializer_set)"

text \<open>
  The constructor, on the operator definition, the workspace, the shared map and the log.
  \<^verbatim>\<open>operator_def.input_size()\<close> and \<^verbatim>\<open>output_size()\<close> are sizes of repeated fields, never
  negative.
\<close>

definition OnnxifiOp ::
  "('w, 'c) environment \<Rightarrow> OperatorDef \<Rightarrow> 'w \<Rightarrow> 'c \<Rightarrow> abi_log
     \<Rightarrow> (error + OnnxifiOp_members) \<times> 'c \<times> abi_log" where
  "OnnxifiOp env operator_def ws c log =
     (if initOnnxifiLibrary env = None then
        (Inl (EnforceFailed ''Cannot initialize ONNXIFI library''), c, log)
      else
        let onnx_model_str = GetSingleArgument_string operator_def ''onnx_model'' [] in
        if onnx_model_str = [] then
          (Inl (EnforceFailed ''onnx_model cannot be empty''), c, log)
        else
          let input_names = GetRepeatedArgument_string operator_def ''input_names'';
              output_names = GetRepeatedArgument_string operator_def ''output_names''
          in
          if length input_names \<noteq> input_size operator_def then
            (Inl (EnforceFailed ''input_names_.size() == operator_def.input_size()''), c, log)
          else if length output_names \<noteq> output_size operator_def then
            (Inl (EnforceFailed ''output_names_.size() == operator_def.output_size()''), c, log)
          else
            (case output_loop operator_def output_names 0 [] Map.empty of
               (output_desc, hints) \<Rightarrow>
             let this = OnnxifiOp_members_init
                   \<lparr>lib_' := initOnnxifiLibrary env,
                    input_desc_' := input_loop input_names [],
                    output_desc_' := output_desc,
                    input_names_' := input_names,
                    output_names_' := output_names,
                    output_shape_hints_' := hints\<rparr>;
                 property_pointers = BuildPropertyList [];
                 initializers = GetRepeatedArgument_string operator_def ''initializers''
             in
             if length initializers mod 2 \<noteq> 0 then
               (Inl (EnforceFailed ''initializers should come in pairs''), c, log)
             else
               (case initializers_loop initializers Map.empty {} of
                  None \<Rightarrow> (Inl (UndefinedBehaviour ''*it past the end''), c, log)
                | Some (input_mapping, initializer_set) \<Rightarrow>
                  (case buildInitializationList env ws input_mapping initializer_set of
                     Inl e \<Rightarrow> (Inl e, c, log)
                   | Inr weight_descs \<Rightarrow>
                     BuildBackendAndGraph env operator_def this property_pointers
                       onnx_model_str weight_descs c log))))"

subsection \<open>The destructor\<close>

text \<open>
  \<^verbatim>\<open>backend_graph_shared_ptr_.reset(); backend_graph_map_ptr_->remove(op_id_string_);\<close>
  The object is gone afterwards; what remains is the shared map and the log.
\<close>

definition OnnxifiOp_destructor ::
  "('w, 'c) environment \<Rightarrow> OnnxifiOp_members \<Rightarrow> 'c \<Rightarrow> abi_log \<Rightarrow> (error + unit) \<times> 'c \<times> abi_log"
  where
  "OnnxifiOp_destructor env this c log = graph_map_remove env (op_id_string_' this) c log"

section \<open>The shared map and the per-call refresh, as the specification words them\<close>

text \<open>
  Modelled from the spec: \<^verbatim>\<open>onnx::OnnxBackendGraphMap\<close> (\<^verbatim>\<open>insert\<close>, \<^verbatim>\<open>remove\<close>) is used by the
  header and defined elsewhere. The specification's contract is
  \<open>get_or_create(key, creator)\<close> and \<open>release(key)\<close>: an entry holds the handle bundle and
  the number of references to it; \<open>get_or_create\<close> returns the bundle of an existing
  entry and counts one more reference, and runs \<open>creator\<close> only when there is none;
  \<open>release\<close> counts one reference less, and at zero tears down the graph, then the
  backend instance, then the backend identity through the stored library and removes the
  entry; a release without an entry or beyond the references taken is reported. A
  status other than success is fatal (4.1).
\<close>

type_synonym graph_cache = "string \<rightharpoonup> (BackendGraphInfo \<times> nat)"

definition get_or_create ::
  "string \<Rightarrow> creator_fn \<Rightarrow> graph_cache \<Rightarrow> abi_log
     \<Rightarrow> (error + BackendGraphInfo) \<times> graph_cache \<times> abi_log" where
  "get_or_create key create c log =
     (case c key of
        Some (info, refs) \<Rightarrow> (Inr info, c(key \<mapsto> (info, refs + 1)), log)
      | None \<Rightarrow>
        (case create log of
           (Inl e, log') \<Rightarrow> (Inl e, c, log')
         | (Inr info, log') \<Rightarrow> (Inr info, c(key \<mapsto> (info, 1)), log')))"

definition teardown :: "BackendGraphInfo \<Rightarrow> abi_log \<Rightarrow> (error + unit) \<times> abi_log" where
  "teardown info log =
     (let st1 = onnxReleaseGraph (lib info) log (graph info);
          log1 = log @ [(onnxReleaseGraph_call (graph info), st1)]
      in
      if st1 \<noteq> ONNXIFI_STATUS_SUCCESS then (Inl (EnforceFailed ''onnxReleaseGraph''), log1)
      else
        let st2 = onnxReleaseBackend (lib info) log1 (backend info);
            log2 = log1 @ [(onnxReleaseBackend_call (backend info), st2)]
        in
        if st2 \<noteq> ONNXIFI_STATUS_SUCCESS then
          (Inl (EnforceFailed ''onnxReleaseBackend''), log2)
        else
          let st3 = onnxReleaseBackendID (lib info) log2 (backend_id info);
              log3 = log2 @ [(onnxReleaseBackendID_call (backend_id info), st3)]
          in
          if st3 \<noteq> ONNXIFI_STATUS_SUCCESS then
            (Inl (EnforceFailed ''onnxReleaseBackendID''), log3)
          else (Inr (), log3))"

definition release ::
  "string \<Rightarrow> graph_cache \<Rightarrow> abi_log \<Rightarrow> (error + unit) \<times> graph_cache \<times> abi_log" where
  "release key c log =
     (case c key of
        None \<Rightarrow> (Inl (EnforceFailed ''release of a key with no entry''), c, log)
      | Some (info, refs) \<Rightarrow>
        if refs = 0 then (Inl (EnforceFailed ''release beyond the references taken''), c, log)
        else if refs - 1 = 0 then
          (case teardown info log of (r, log') \<Rightarrow> (r, c(key := None), log'))
        else (Inr (), c(key \<mapsto> (info, refs - 1)), log))"

text \<open>
  Modelled from the spec: \<^verbatim>\<open>RunOnDevice\<close> is declared in the header and defined elsewhere.
  Per invocation (4.5) it refreshes each descriptor's buffer pointer and dimension
  sequence from the current tensors; for an output the type and the dimensions come
  from \<open>SetOutputShapeAndType\<close>. An invocation is given the tensor of every input
  position (its dimensions and its buffer) and the buffer of every output position.
\<close>

definition refresh_input ::
  "onnxTensorDescriptorV1 \<Rightarrow> 64 word list \<times> nat \<Rightarrow> onnxTensorDescriptorV1" where
  "refresh_input d t = d\<lparr>shape := fst t, buffer := snd t\<rparr>"

definition refresh_output ::
  "OnnxifiOp_members \<Rightarrow> nat \<Rightarrow> onnxTensorDescriptorV1 \<Rightarrow> nat \<Rightarrow> onnxTensorDescriptorV1" where
  "refresh_output this i d buf =
     (case SetOutputShapeAndType this (int i) [] of
        (type, output_shape) \<Rightarrow> d\<lparr>dataType := type, shape := output_shape, buffer := buf\<rparr>)"

definition refresh_descriptors ::
  "OnnxifiOp_members \<Rightarrow> (nat \<Rightarrow> 64 word list \<times> nat) \<times> (nat \<Rightarrow> nat) \<Rightarrow> OnnxifiOp_members"
  where
  "refresh_descriptors this tensors =
     this\<lparr>input_desc_' :=
            map2 (\<lambda>i d. refresh_input d (fst tensors i))
              [0..<length (input_desc_' this)] (input_desc_' this),
          output_desc_' :=
            map2 (\<lambda>i d. refresh_output this i d (snd tensors i))
              [0..<length (output_desc_' this)] (output_desc_' this)\<rparr>"

section \<open>Concrete libraries, environments and operator definitions\<close>

text \<open>
  A library with two backends, identities \<open>11\<close> and \<open>12\<close>, on which every call succeeds
  and which offers the extension.
\<close>

definition example_lib :: onnxifi_library where
  "example_lib =
     \<lparr>onnxGetBackendIDs =
        (\<lambda>log buf n. case buf of None \<Rightarrow> (ONNXIFI_STATUS_FALLBACK, [], 2)
                                | Some k \<Rightarrow> (ONNXIFI_STATUS_SUCCESS, [11, 12], 2)),
      onnxInitBackend = (\<lambda>log b props. (ONNXIFI_STATUS_SUCCESS, b + 100)),
      onnxReleaseBackendID = (\<lambda>log b. ONNXIFI_STATUS_SUCCESS),
      onnxInitGraph = (\<lambda>log b m w. (ONNXIFI_STATUS_SUCCESS, b + 1000)),
      onnxGetExtensionFunctionAddress = (\<lambda>log b nm. (ONNXIFI_STATUS_SUCCESS, 77)),
      onnxReleaseGraph = (\<lambda>log g. ONNXIFI_STATUS_SUCCESS),
      onnxReleaseBackend = (\<lambda>log b. ONNXIFI_STATUS_SUCCESS)\<rparr>"

text \<open>A shared map that shares nothing: every \<^verbatim>\<open>insert\<close> runs the creator.\<close>

definition example_env :: "(unit, unit) environment" where
  "example_env =
     \<lparr>initOnnxifiLibrary = Some example_lib,
      buildInitializationList = (\<lambda>ws input_mapping initializer_set. Inr []),
      graph_map_insert = (\<lambda>key create c log. case create log of (r, log') \<Rightarrow> (r, c, log')),
      graph_map_remove = (\<lambda>key c log. (Inr (), c, log)),
      ONNXIFI_ENABLE_EXT = True\<rparr>"

text \<open>
  The scenario of the specification: inputs \<open>x\<close> and \<open>y\<close>, output \<open>z\<close> with the shape hint
  \<open>[FLOAT32, 1, 10]\<close>, the first backend.
\<close>

definition example_def :: OperatorDef where
  "example_def =
     \<lparr>input_size = 2, output_size = 1,
      arg_s = [''onnx_model'' \<mapsto> ''M'', ''model_id'' \<mapsto> ''m'', ''net_pos'' \<mapsto> ''0''],
      arg_i = Map.empty,
      arg_strings = [''input_names'' \<mapsto> [''x'', ''y''], ''output_names'' \<mapsto> [''z'']],
      arg_ints = [''output_shape_hint_0'' \<mapsto> [1, 1, 10]]\<rparr>"

section \<open>Notions the statements use\<close>

text \<open>
  The shape hint the arguments declare for output position \<open>k\<close>: none when the repeated
  argument \<^verbatim>\<open>output_shape_hint_<k>\<close> is empty or absent, otherwise the first entry as the
  type and the remaining entries as the dimensions, each converted to 64 bits.
\<close>

definition hint_of :: "OperatorDef \<Rightarrow> int \<Rightarrow> TensorInfo option" where
  "hint_of operator_def k =
     (case GetRepeatedArgument_int operator_def (c10_str ''output_shape_hint_'' k) of
        [] \<Rightarrow> None
      | t # ds \<Rightarrow> Some \<lparr>dims = map scast ds, onnxifi_type = scast t\<rparr>)"

text \<open>A flat list read as consecutive (original name, workspace name) pairs.\<close>

fun initializer_pairs :: "string list \<Rightarrow> (string \<times> string) list" where
  "initializer_pairs (key # val # rest) = (key, val) # initializer_pairs rest"
| "initializer_pairs _ = []"

text \<open>
  The operator that the constructor builds from \<open>example_def\<close> in \<open>example_env\<close>, and the
  calls it makes on the way.
\<close>

definition example_this :: OnnxifiOp_members where
  "example_this =
     \<lparr>lib_' = Some example_lib, op_id_string_' = ''m:0'', backend_id_' = 11, backend_' = 111,
      graph_' = 1111,
      backend_graph_shared_ptr_' =
        Some \<lparr>backend_id = 11, backend = 111, graph = 1111, lib = example_lib\<rparr>,
      input_desc_' = [onnxTensorDescriptorV1_init\<lparr>name := ''x''\<rparr>,
                      onnxTensorDescriptorV1_init\<lparr>name := ''y''\<rparr>],
      output_desc_' = [onnxTensorDescriptorV1_init\<lparr>name := ''z''\<rparr>],
      onnxSetIOAndRunGraphPointer_' = 77, input_names_' = [''x'', ''y''],
      output_names_' = [''z''], input_shapes_' = [], output_shapes_' = [],
      output_shape_hints_' = [0 \<mapsto> \<lparr>dims = [1, 10], onnxifi_type = 1\<rparr>]\<rparr>"

definition example_log :: abi_log where
  "example_log =
     [(onnxGetBackendIDs_call None 0, ONNXIFI_STATUS_FALLBACK),
      (onnxGetBackendIDs_call (Some 2) 2, ONNXIFI_STATUS_SUCCESS),
      (onnxInitBackend_call 11 [ONNXIFI_BACKEND_PROPERTY_NONE], ONNXIFI_STATUS_SUCCESS),
      (onnxReleaseBackendID_call 12, ONNXIFI_STATUS_SUCCESS),
      (onnxInitGraph_call 111 ''M'' [], ONNXIFI_STATUS_SUCCESS),
      (onnxGetExtensionFunctionAddress_call 11 ''onnxSetIOAndRunGraphFunction'',
       ONNXIFI_STATUS_SUCCESS)]"

text \<open>The number a string of decimal digits denotes.\<close>

definition decimal_value :: "string \<Rightarrow> nat" where
  "decimal_value ds = foldl (\<lambda>a ch. 10 * a + (of_char ch - 48)) 0 ds"

text \<open>
  Variants of \<open>example_def\<close>: an odd initializer list, and two outputs of which the second
  has a hint with a negative dimension.
\<close>

definition example_def_odd :: OperatorDef where
  "example_def_odd =
     example_def\<lparr>arg_strings := (arg_strings example_def)(''initializers'' \<mapsto> [''w''])\<rparr>"

definition example_def_second_output :: OperatorDef where
  "example_def_second_output =
     example_def\<lparr>output_size := 2,
       arg_strings := [''input_names'' \<mapsto> [''x'', ''y''], ''output_names'' \<mapsto> [''z'', ''u'']],
       arg_ints := [''output_shape_hint_1'' \<mapsto> [1, - 1]]\<rparr>"

definition example_this_second_output :: OnnxifiOp_members where
  "example_this_second_output =
     example_this\<lparr>output_desc_' := [onnxTensorDescriptorV1_init\<lparr>name := ''z''\<rparr>,
                                    onnxTensorDescriptorV1_init\<lparr>name := ''u''\<rparr>],
                  output_names_' := [''z'', ''u''],
                  output_shape_hints_' := [1 \<mapsto> \<lparr>dims = [- 1], onnxifi_type = 1\<rparr>]\<rparr>"

text \<open>
  The statuses the code lets pass, per call: the count query must return the fallback
  code; the fill query, the backend and the graph initialisation must return success;
  the status of releasing an unused identity and of the extension probe is not
  enforced. (The release of a graph and of a backend is not called by the header.)
\<close>

fun accepted :: "abi_call \<times> onnxStatus \<Rightarrow> bool" where
  "accepted (onnxGetBackendIDs_call None n, st) = (st = ONNXIFI_STATUS_FALLBACK)"
| "accepted (onnxGetBackendIDs_call (Some k) n, st) = (st = ONNXIFI_STATUS_SUCCESS)"
| "accepted (onnxInitBackend_call b props, st) = (st = ONNXIFI_STATUS_SUCCESS)"
| "accepted (onnxInitGraph_call b model weights, st) = (st = ONNXIFI_STATUS_SUCCESS)"
| "accepted (onnxReleaseBackendID_call b, st) = True"
| "accepted (onnxGetExtensionFunctionAddress_call b nm, st) = True"
| "accepted (onnxReleaseGraph_call g, st) = (st = ONNXIFI_STATUS_SUCCESS)"
| "accepted (onnxReleaseBackend_call b, st) = (st = ONNXIFI_STATUS_SUCCESS)"

text \<open>
  Further examples: a backend index beyond the two backends, a library whose count
  query answers success, and one whose release of an identity fails.
\<close>

definition example_def_out_of_range :: OperatorDef where
  "example_def_out_of_range = example_def\<lparr>arg_i := [''backend_id'' \<mapsto> 2]\<rparr>"

definition example_lib_count_success :: onnxifi_library where
  "example_lib_count_success =
     example_lib\<lparr>onnxGetBackendIDs := (\<lambda>log buf n. (ONNXIFI_STATUS_SUCCESS, [11, 12], 2))\<rparr>"

definition example_lib_release_fails :: onnxifi_library where
  "example_lib_release_fails = example_lib\<lparr>onnxReleaseBackendID := (\<lambda>log b. 2)\<rparr>"

text \<open>
  A build without \<^verbatim>\<open>ONNXIFI_ENABLE_EXT\<close>; a library without the extension; and an object
  under construction that holds this library.
\<close>

definition example_env_no_ext :: "(unit, unit) environment" where
  "example_env_no_ext = example_env\<lparr>ONNXIFI_ENABLE_EXT := False\<rparr>"

definition example_lib_no_extension :: onnxifi_library where
  "example_lib_no_extension =
     example_lib\<lparr>onnxGetExtensionFunctionAddress := (\<lambda>log b nm. (2, 5))\<rparr>"

definition example_members_no_extension :: OnnxifiOp_members where
  "example_members_no_extension = OnnxifiOp_members_init\<lparr>lib_' := Some example_lib_no_extension\<rparr>"

text \<open>One more notion: a call that compiles a graph.\<close>

fun compiles :: "abi_call \<Rightarrow> bool" where
  "compiles (onnxInitGraph_call b model weights) = True"
| "compiles _ = False"

text \<open>
  The example environment with the shared map of the specification, the bundle the
  example creates, and the probe that follows it.
\<close>

definition example_shared_env :: "(unit, graph_cache) environment" where
  "example_shared_env =
     \<lparr>initOnnxifiLibrary = Some example_lib,
      buildInitializationList = (\<lambda>ws input_mapping initializer_set. Inr []),
      graph_map_insert = get_or_create,
      graph_map_remove = release,
      ONNXIFI_ENABLE_EXT = True\<rparr>"

definition example_info :: BackendGraphInfo where
  "example_info = \<lparr>backend_id = 11, backend = 111, graph = 1111, lib = example_lib\<rparr>"

definition example_probe :: "abi_call \<times> onnxStatus" where
  "example_probe =
     (onnxGetExtensionFunctionAddress_call 11 ''onnxSetIOAndRunGraphFunction'',
      ONNXIFI_STATUS_SUCCESS)"

section \<open>The cache key\<close>

lemma append_sep_left:
  assumes "c \<notin> set xs" "c \<notin> set xs'" "xs @ c # ys = xs' @ c # ys'"
  shows "xs = xs' \<and> ys = ys'"
proof -
  have "takeWhile (\<lambda>x. x \<noteq> c) (xs @ c # ys) = xs" using assms(1)
    by (auto simp: takeWhile_tail)
  moreover have "takeWhile (\<lambda>x. x \<noteq> c) (xs' @ c # ys') = xs'" using assms(2)
    by (auto simp: takeWhile_tail)
  ultimately have "xs = xs'" using assms(3) by simp
  with assms(3) show ?thesis by simp
qed

lemma append_sep_right:
  assumes "c \<notin> set ys" "c \<notin> set ys'" "xs @ c # ys = xs' @ c # ys'"
  shows "xs = xs' \<and> ys = ys'"
proof -
  have "rev ys @ c # rev xs = rev ys' @ c # rev xs'"
    using arg_cong [OF assms(3), of rev] by simp
  then have "rev ys = rev ys' \<and> rev xs = rev xs'"
    using append_sep_left [of c "rev ys" "rev ys'" "rev xs" "rev xs'"] assms(1,2) by simp
  then show ?thesis by simp
qed

text \<open>
  Claim C9 says that the key computed from the model identifier and the net position is
  injective in that pair. It is not: the separator may occur in either part, and the
  pairs \<open>(''a:b'', ''c'')\<close> and \<open>(''a'', ''b:c'')\<close> both give \<open>''a:b:c''\<close>.
\<close>

theorem C9_op_id_string_not_injective:
  "op_id_string ''a:b'' ''c'' = op_id_string ''a'' ''b:c''
   \<and> (''a:b'', ''c'') \<noteq> (''a'', ''b:c'')"
  by (simp add: op_id_string_def)

text \<open>
  Claim C9, amended: two pairs that differ give different keys when neither model
  identifier contains a colon, and also when neither net position contains a colon.
\<close>

theorem C9_op_id_string_injective_without_colon:
  assumes "(CHR '':'' \<notin> set model_id1 \<and> CHR '':'' \<notin> set model_id2)
           \<or> (CHR '':'' \<notin> set net_pos1 \<and> CHR '':'' \<notin> set net_pos2)"
    and "(model_id1, net_pos1) \<noteq> (model_id2, net_pos2)"
  shows "op_id_string model_id1 net_pos1 \<noteq> op_id_string model_id2 net_pos2"
  using assms
    append_sep_left [of "CHR '':''" model_id1 model_id2 net_pos1 net_pos2]
    append_sep_right [of "CHR '':''" net_pos1 net_pos2 model_id1 model_id2]
  by (auto simp: op_id_string_def)

theorem C9_op_id_string_injective_witness:
  "CHR '':'' \<notin> set ''m'' \<and> CHR '':'' \<notin> set ''m'' \<and> (''m'', ''0'') \<noteq> (''m'', ''1'')
   \<and> op_id_string ''m'' ''0'' \<noteq> op_id_string ''m'' ''1''"
  using C9_op_id_string_injective_without_colon [of "''m''" "''m''" "''0''" "''1''"] by simp

section \<open>The loops of the constructor\<close>

lemma input_loop_eq: "input_loop names acc = acc @ map (\<lambda>n. onnxTensorDescriptorV1_init\<lparr>name := n\<rparr>) names"
  by (induction names arbitrary: acc) auto

lemma hint_dims_eq: "hint_dims h i acc = acc @ map scast (drop i h)"
proof (induction h i acc rule: hint_dims.induct)
  case (1 h i acc)
  show ?case
  proof (cases "i < length h")
    case True
    then have "drop i h = h ! i # drop (Suc i) h" by (simp add: Cons_nth_drop_Suc)
    with True "1" show ?thesis by (subst hint_dims.simps) simp
  next
    case False
    then show ?thesis by (subst hint_dims.simps) simp
  qed
qed

lemma hint_dims_tl: "hint_dims h (Suc 0) [] = map scast (tl h)"
  by (simp add: hint_dims_eq drop_Suc)

lemma output_loop_descs:
  "fst (output_loop operator_def names idx descs hints) =
     descs @ map (\<lambda>n. onnxTensorDescriptorV1_init\<lparr>name := n\<rparr>) names"
  by (induction names arbitrary: idx descs hints) (auto simp: Let_def)

lemma output_loop_hints:
  "\<forall>j\<ge>idx. hints j = None \<Longrightarrow>
   snd (output_loop operator_def names idx descs hints) k =
     (if idx \<le> k \<and> k < idx + int (length names) then hint_of operator_def k else hints k)"
proof (induction names arbitrary: idx descs hints)
  case Nil
  then show ?case by auto
next
  case (Cons n names)
  let ?h = "GetRepeatedArgument_int operator_def (c10_str ''output_shape_hint_'' idx)"
  let ?hints' = "if ?h \<noteq> [] then emplace hints idx
                 \<lparr>dims = hint_dims ?h 1 [], onnxifi_type = scast (hd ?h)\<rparr> else hints"
  have none: "hints idx = None" using Cons.prems by simp
  have upd: "?hints' = (\<lambda>j. if j = idx then hint_of operator_def idx else hints j)"
    using none by (cases ?h) (auto simp: emplace_def hint_of_def hint_dims_tl fun_eq_iff)
  have pre: "\<forall>j\<ge>idx + 1. ?hints' j = None"
    using Cons.prems by (simp add: upd)
  have "snd (output_loop operator_def (n # names) idx descs hints) k =
        snd (output_loop operator_def names (idx + 1)
               (descs @ [onnxTensorDescriptorV1_init\<lparr>name := n\<rparr>]) ?hints') k"
    by (simp add: Let_def)
  also have "\<dots> = (if idx + 1 \<le> k \<and> k < idx + 1 + int (length names)
                    then hint_of operator_def k else ?hints' k)"
    using Cons.IH [OF pre] by simp
  also have "\<dots> = (if idx \<le> k \<and> k < idx + int (length (n # names))
                    then hint_of operator_def k else hints k)"
    by (auto simp: upd)
  finally show ?case .
qed

lemma output_loop_cong:
  assumes "\<And>k. GetRepeatedArgument_int d1 k = GetRepeatedArgument_int d2 k"
  shows "output_loop d1 names idx descs hints = output_loop d2 names idx descs hints"
  using assms by (induction names arbitrary: idx descs hints) (simp_all add: Let_def)

lemma initializers_loop_eq:
  "even (length xs) \<Longrightarrow>
   initializers_loop xs m s =
     Some (map_of (initializer_pairs xs) ++ m, s \<union> fst ` set (initializer_pairs xs))"
proof (induction xs m s rule: initializers_loop.induct)
  case (1 m s)
  then show ?case by simp
next
  case (2 key m s)
  then show ?case by simp
next
  case (3 key val rest m s)
  have eq: "map_of (initializer_pairs rest) ++ emplace m key val
      = map_of (initializer_pairs (key # val # rest)) ++ m"
    by (auto simp: fun_eq_iff map_add_def emplace_def split: option.splits)
  have st: "insert key s \<union> fst ` set (initializer_pairs rest)
      = s \<union> fst ` set (initializer_pairs (key # val # rest))"
    by auto
  have "initializers_loop (key # val # rest) m s
      = initializers_loop rest (emplace m key val) (insert key s)"
    by simp
  also have "\<dots> = Some (map_of (initializer_pairs rest) ++ emplace m key val,
                        insert key s \<union> fst ` set (initializer_pairs rest))"
    using "3.IH" "3.prems" by simp
  finally show ?case unfolding eq st .
qed

lemma uint_scast_take_bit: "uint (scast (x :: 32 word) :: 64 word) = take_bit 64 (sint x)"
  by (simp only: scast_eq uint_word_of_int_eq len_of_numeral_defs) simp

lemma uint_scast_mod: "uint (scast (x :: 32 word) :: 64 word) = sint x mod 2 ^ 64"
  unfolding uint_scast_take_bit by (rule take_bit_eq_mod)

section \<open>What a successful construction establishes\<close>

lemma BuildBackendAndGraph_frame:
  assumes "BuildBackendAndGraph env operator_def this property_pointers onnx_model_str weight_descs c log = (Inr this', c', log')"
  shows "input_desc_' this' = input_desc_' this \<and> output_desc_' this' = output_desc_' this
       \<and> input_names_' this' = input_names_' this \<and> output_names_' this' = output_names_' this
       \<and> output_shape_hints_' this' = output_shape_hints_' this \<and> lib_' this' = lib_' this"
  using assms
  by (auto simp: BuildBackendAndGraph_def Let_def split: option.splits prod.splits sum.splits if_splits)

lemma OnnxifiOp_Inr:
  assumes "OnnxifiOp env operator_def ws c log = (Inr this, c', log')"
  shows "length (GetRepeatedArgument_string operator_def ''input_names'') = input_size operator_def"
    and "length (GetRepeatedArgument_string operator_def ''output_names'') = output_size operator_def"
    and "even (length (GetRepeatedArgument_string operator_def ''initializers''))"
    and "GetSingleArgument_string operator_def ''onnx_model'' [] \<noteq> []"
    and "lib_' this = initOnnxifiLibrary env" and "initOnnxifiLibrary env \<noteq> None"
    and "input_names_' this = GetRepeatedArgument_string operator_def ''input_names''"
    and "output_names_' this = GetRepeatedArgument_string operator_def ''output_names''"
    and "input_desc_' this = input_loop (GetRepeatedArgument_string operator_def ''input_names'') []"
    and "output_desc_' this = fst (output_loop operator_def (GetRepeatedArgument_string operator_def ''output_names'') 0 [] Map.empty)"
    and "output_shape_hints_' this = snd (output_loop operator_def (GetRepeatedArgument_string operator_def ''output_names'') 0 [] Map.empty)"
  using assms
  by (auto simp: OnnxifiOp_def Let_def OnnxifiOp_members_init_def split: option.splits prod.splits sum.splits if_splits
      dest!: BuildBackendAndGraph_frame)

lemma OnnxifiOp_arity_mismatch:
  assumes "length (GetRepeatedArgument_string operator_def ''input_names'') \<noteq> input_size operator_def
         \<or> length (GetRepeatedArgument_string operator_def ''output_names'') \<noteq> output_size operator_def"
  shows "\<exists>e. OnnxifiOp env operator_def ws c log = (Inl e, c, log)"
  using assms by (auto simp: OnnxifiOp_def Let_def)

lemma OnnxifiOp_odd_initializers:
  assumes "odd (length (GetRepeatedArgument_string operator_def ''initializers''))"
  shows "\<exists>msg. OnnxifiOp env operator_def ws c log = (Inl (EnforceFailed msg), c, log)"
  using assms by (auto simp: OnnxifiOp_def Let_def odd_iff_mod_2_eq_one split: prod.splits)

lemma OnnxifiOp_odd_initializers_message:
  assumes "initOnnxifiLibrary env \<noteq> None"
    and "GetSingleArgument_string operator_def ''onnx_model'' [] \<noteq> []"
    and "length (GetRepeatedArgument_string operator_def ''input_names'') = input_size operator_def"
    and "length (GetRepeatedArgument_string operator_def ''output_names'') = output_size operator_def"
    and "odd (length (GetRepeatedArgument_string operator_def ''initializers''))"
  shows "OnnxifiOp env operator_def ws c log
           = (Inl (EnforceFailed ''initializers should come in pairs''), c, log)"
  using assms by (auto simp: OnnxifiOp_def Let_def odd_iff_mod_2_eq_one split: prod.splits)

lemma OnnxifiOp_weights:
  assumes "OnnxifiOp env operator_def ws c log = (Inr this, c', log')"
  shows "\<exists>weight_descs.
     buildInitializationList env ws
       (map_of (initializer_pairs (GetRepeatedArgument_string operator_def ''initializers'')))
       (fst ` set (initializer_pairs (GetRepeatedArgument_string operator_def ''initializers'')))
     = Inr weight_descs"
proof -
  have ev: "even (length (GetRepeatedArgument_string operator_def ''initializers''))"
    by (rule OnnxifiOp_Inr(3) [OF assms])
  show ?thesis
    using assms initializers_loop_eq [OF ev, of Map.empty "{}"]
    by (auto simp: OnnxifiOp_def Let_def split: prod.splits if_splits sum.splits)
qed

lemma OnnxifiOp_empty_hint:
  "OnnxifiOp env (operator_def\<lparr>arg_ints := (arg_ints operator_def)(key \<mapsto> [])\<rparr>) ws c log
   = OnnxifiOp env (operator_def\<lparr>arg_ints := (arg_ints operator_def)(key := None)\<rparr>) ws c log"
proof -
  let ?d1 = "operator_def\<lparr>arg_ints := (arg_ints operator_def)(key \<mapsto> [])\<rparr>"
  let ?d2 = "operator_def\<lparr>arg_ints := (arg_ints operator_def)(key := None)\<rparr>"
  have "\<And>k. GetRepeatedArgument_int ?d1 k = GetRepeatedArgument_int ?d2 k"
    by (simp add: GetRepeatedArgument_int_def)
  then have ol: "\<And>names idx descs hints.
      output_loop ?d1 names idx descs hints = output_loop ?d2 names idx descs hints"
    by (rule output_loop_cong)
  have s: "\<And>k v. GetSingleArgument_string ?d1 k v = GetSingleArgument_string ?d2 k v"
    by (simp add: GetSingleArgument_string_def)
  have i: "\<And>k v. GetSingleArgument_int ?d1 k v = GetSingleArgument_int ?d2 k v"
    by (simp add: GetSingleArgument_int_def)
  have r: "\<And>k. GetRepeatedArgument_string ?d1 k = GetRepeatedArgument_string ?d2 k"
    by (simp add: GetRepeatedArgument_string_def)
  have n: "input_size ?d1 = input_size ?d2" "output_size ?d1 = output_size ?d2"
    by simp_all
  have b: "\<And>this pp m w. BuildBackendAndGraph env ?d1 this pp m w c log
      = BuildBackendAndGraph env ?d2 this pp m w c log"
    unfolding BuildBackendAndGraph_def s i by (rule refl)
  show ?thesis
    unfolding OnnxifiOp_def s r n ol b by (rule refl)
qed

section \<open>The example, evaluated\<close>

lemma example_creator:
  "creator example_lib [ONNXIFI_BACKEND_PROPERTY_NONE] 0 ''M'' [] [] =
     (Inr \<lparr>backend_id = 11, backend = 111, graph = 1111, lib = example_lib\<rparr>, take 5 example_log)"
  by (simp add: creator_def release_unused.simps example_lib_def example_log_def
      ONNXIFI_STATUS_SUCCESS_def ONNXIFI_STATUS_FALLBACK_def vector_max_size_def
      written_into_def nullptr_def Let_def)

lemma example_lib_probe:
  "onnxGetExtensionFunctionAddress example_lib log' b nm = (ONNXIFI_STATUS_SUCCESS, 77)"
  by (simp add: example_lib_def)

lemma example_construction:
  "OnnxifiOp example_env example_def () () [] = (Inr example_this, (), example_log)"
  by (simp add: OnnxifiOp_def BuildBackendAndGraph_def example_creator example_env_def example_def_def
      example_this_def example_log_def example_lib_probe
      GetSingleArgument_string_def GetRepeatedArgument_string_def GetRepeatedArgument_int_def
      GetSingleArgument_int_def c10_str_def decimal.simps emplace_def BuildPropertyList_def
      OnnxifiOp_members_init_def op_id_string_def hint_dims.simps Let_def nullptr_def
      ONNXIFI_STATUS_SUCCESS_def ONNXIFI_STATUS_FALLBACK_def)

lemma example_construction_second_output:
  "OnnxifiOp example_env example_def_second_output () () [] =
     (Inr example_this_second_output, (), example_log)"
  by (simp add: OnnxifiOp_def BuildBackendAndGraph_def example_creator example_env_def example_def_def
      example_def_second_output_def example_this_second_output_def
      example_this_def example_log_def example_lib_probe
      GetSingleArgument_string_def GetRepeatedArgument_string_def GetRepeatedArgument_int_def
      GetSingleArgument_int_def c10_str_def decimal.simps emplace_def BuildPropertyList_def
      OnnxifiOp_members_init_def op_id_string_def hint_dims.simps Let_def nullptr_def
      ONNXIFI_STATUS_SUCCESS_def ONNXIFI_STATUS_FALLBACK_def)

section \<open>The per-call refresh keeps the names\<close>

lemma name_refresh_input: "name (refresh_input d t) = name d"
  by (simp add: refresh_input_def)

lemma name_refresh_output: "name (refresh_output this i d buf) = name d"
  by (simp add: refresh_output_def split: prod.splits)

lemma map2_index_names:
  assumes "\<And>i d. name (f i d) = name d"
  shows "map name (map2 f [k..<k + length ds] ds) = map name ds"
  using assms
proof (induction ds arbitrary: k)
  case Nil
  then show ?case by simp
next
  case (Cons d ds)
  have "[k..<k + length (d # ds)] = k # [Suc k..<Suc k + length ds]"
    by (subst upt_rec) simp
  then show ?case using Cons.IH [of "Suc k"] Cons.prems by simp
qed

lemma refresh_descriptors_names:
  "map name (input_desc_' (refresh_descriptors this tensors)) = map name (input_desc_' this)
   \<and> map name (output_desc_' (refresh_descriptors this tensors)) = map name (output_desc_' this)
   \<and> output_shape_hints_' (refresh_descriptors this tensors) = output_shape_hints_' this"
  using map2_index_names [of "\<lambda>i d. refresh_input d (fst tensors i)" 0 "input_desc_' this"]
    map2_index_names [of "\<lambda>i d. refresh_output this i d (snd tensors i)" 0 "output_desc_' this"]
  by (simp add: refresh_descriptors_def name_refresh_input name_refresh_output)

lemma foldl_refresh_names:
  "map name (input_desc_' (foldl refresh_descriptors this calls)) = map name (input_desc_' this)
   \<and> map name (output_desc_' (foldl refresh_descriptors this calls)) = map name (output_desc_' this)"
  by (induction calls arbitrary: this) (simp_all add: refresh_descriptors_names)

section \<open>The names of the hint arguments\<close>

lemma digit_char:
  assumes "d < 10"
  shows "of_char (''0123456789'' ! d) - 48 = d \<and> ''0123456789'' ! d \<in> set ''0123456789''
       \<and> (''0123456789'' ! d = CHR ''0'' \<longrightarrow> d = 0)"
proof -
  from assms have "d \<in> {0, 1, 2, 3, 4, 5, 6, 7, 8, 9}" by auto
  then show ?thesis by auto
qed

lemma decimal_canonical:
  "decimal_value (decimal n) = n \<and> decimal n \<noteq> [] \<and> set (decimal n) \<subseteq> set ''0123456789''
   \<and> (hd (decimal n) = CHR ''0'' \<longrightarrow> decimal n = ''0'')"
proof (induction n rule: decimal.induct)
  case (1 n)
  show ?case
  proof (cases "n < 10")
    case True
    then have "decimal n = [''0123456789'' ! n]" by (subst decimal.simps) simp
    with digit_char [OF True] show ?thesis by (simp add: decimal_value_def)
  next
    case False
    then have d: "decimal n = decimal (n div 10) @ [''0123456789'' ! (n mod 10)]"
      by (subst decimal.simps) simp
    have m: "n mod 10 < 10" by simp
    from False have pos: "n div 10 \<noteq> 0" by simp
    from "1.IH" [OF False] digit_char [OF m] pos show ?thesis
      unfolding d by (auto simp: decimal_value_def)
  qed
qed

lemma c10_str_key:
  assumes "0 \<le> i"
  shows "\<exists>ds. c10_str prefix i = prefix @ ds \<and> decimal_value ds = nat i \<and> ds \<noteq> []
             \<and> set ds \<subseteq> set ''0123456789'' \<and> (hd ds = CHR ''0'' \<longrightarrow> ds = ''0'')"
  using assms decimal_canonical [of "nat i"] by (auto simp: c10_str_def)

lemma c10_str_10: "c10_str ''output_shape_hint_'' 10 = ''output_shape_hint_10''"
  by (simp add: c10_str_def decimal.simps)

section \<open>Output shape hints\<close>

text \<open>
  Claim C2. For every output position \<open>i\<close>: when a shape hint is registered for \<open>i\<close>,
  \<open>SetOutputShapeAndType\<close> returns the hint's element type and appends exactly the hint's
  dimensions to the sequence it is given; when none is registered it returns the 32-bit
  floating point type and leaves the sequence as it was (empty when it was empty). The
  result depends on the operator through its hints only, so no shape held elsewhere in
  the operator changes it.
\<close>

theorem C2_SetOutputShapeAndType:
  "(output_shape_hints_' this i = Some info \<longrightarrow>
      SetOutputShapeAndType this i dims_out = (onnxifi_type info, dims_out @ dims info))
   \<and> (output_shape_hints_' this i = None \<longrightarrow>
      SetOutputShapeAndType this i dims_out = (ONNXIFI_DATATYPE_FLOAT32, dims_out))
   \<and> (output_shape_hints_' that = output_shape_hints_' this \<longrightarrow>
      SetOutputShapeAndType that i dims_out = SetOutputShapeAndType this i dims_out)"
  by (simp add: SetOutputShapeAndType_def)

theorem C2_SetOutputShapeAndType_witness:
  "output_shape_hints_' example_this 0 = Some \<lparr>dims = [1, 10], onnxifi_type = 1\<rparr>
   \<and> SetOutputShapeAndType example_this 0 [] = (1, [1, 10])
   \<and> output_shape_hints_' example_this 1 = None
   \<and> SetOutputShapeAndType example_this 1 [] = (ONNXIFI_DATATYPE_FLOAT32, [])
   \<and> output_shape_hints_' (example_this\<lparr>output_shapes_' := [[2, 3]]\<rparr>)
       = output_shape_hints_' example_this
   \<and> SetOutputShapeAndType (example_this\<lparr>output_shapes_' := [[2, 3]]\<rparr>) 0 []
       = SetOutputShapeAndType example_this 0 []"
  using C2_SetOutputShapeAndType [where this = example_this and i = 0 and dims_out = "[]"
      and info = "\<lparr>dims = [1, 10], onnxifi_type = 1\<rparr>"
      and that = "example_this\<lparr>output_shapes_' := [[2, 3]]\<rparr>"]
    C2_SetOutputShapeAndType [where this = example_this and i = 1 and dims_out = "[]"
      and that = example_this]
  by (simp add: example_this_def)

text \<open>
  Claim C10. After a successful construction a shape hint is recorded for position \<open>i\<close>
  exactly when \<open>i\<close> is an output position and the repeated integer argument
  \<^verbatim>\<open>output_shape_hint_<i>\<close> is not empty; its type is the first entry and its dimensions
  are the remaining entries, each converted from a signed 32-bit to an unsigned 64-bit
  value, that is, to its value modulo \<open>2^64\<close>. The name of the argument is
  \<^verbatim>\<open>output_shape_hint_\<close> followed by the decimal numeral of \<open>i\<close>: a non-empty string of
  digits that denotes \<open>i\<close> and has no leading zero (\<^verbatim>\<open>output_shape_hint_10\<close> for position
  10). An argument that is present and empty gives the same construction as an absent
  one.
\<close>

theorem C10_output_shape_hints:
  "(OnnxifiOp env operator_def ws c log = (Inr this, c', log') \<longrightarrow>
      output_shape_hints_' this i =
        (if 0 \<le> i \<and> i < int (output_size operator_def) then
           (case GetRepeatedArgument_int operator_def (c10_str ''output_shape_hint_'' i) of
              [] \<Rightarrow> None
            | t # ds \<Rightarrow> Some \<lparr>dims = map scast ds, onnxifi_type = scast t\<rparr>)
         else None)
    \<and> (\<forall>info. output_shape_hints_' this i = Some info \<longrightarrow>
          map uint (onnxifi_type info # dims info) =
            map (\<lambda>x. sint x mod 2 ^ 64)
              (GetRepeatedArgument_int operator_def (c10_str ''output_shape_hint_'' i))))
   \<and> (0 \<le> i \<longrightarrow>
        (\<exists>digits. c10_str ''output_shape_hint_'' i = ''output_shape_hint_'' @ digits
           \<and> decimal_value digits = nat i \<and> digits \<noteq> []
           \<and> set digits \<subseteq> set ''0123456789'' \<and> (hd digits = CHR ''0'' \<longrightarrow> digits = ''0'')))
   \<and> c10_str ''output_shape_hint_'' 10 = ''output_shape_hint_10''
   \<and> OnnxifiOp env (operator_def\<lparr>arg_ints := (arg_ints operator_def)(key \<mapsto> [])\<rparr>) ws c log
     = OnnxifiOp env (operator_def\<lparr>arg_ints := (arg_ints operator_def)(key := None)\<rparr>) ws c log"
proof (intro conjI impI)
  assume ok: "OnnxifiOp env operator_def ws c log = (Inr this, c', log')"
  have "output_shape_hints_' this i =
      (if 0 \<le> i \<and> i < 0 + int (length (GetRepeatedArgument_string operator_def ''output_names''))
       then hint_of operator_def i else Map.empty i)"
    unfolding OnnxifiOp_Inr(11) [OF ok] by (rule output_loop_hints) simp
  then show hints: "output_shape_hints_' this i =
        (if 0 \<le> i \<and> i < int (output_size operator_def) then
           (case GetRepeatedArgument_int operator_def (c10_str ''output_shape_hint_'' i) of
              [] \<Rightarrow> None
            | t # ds \<Rightarrow> Some \<lparr>dims = map scast ds, onnxifi_type = scast t\<rparr>)
         else None)"
    using OnnxifiOp_Inr(2) [OF ok] by (simp add: hint_of_def)
  show "\<forall>info. output_shape_hints_' this i = Some info \<longrightarrow>
          map uint (onnxifi_type info # dims info) =
            map (\<lambda>x. sint x mod 2 ^ 64)
              (GetRepeatedArgument_int operator_def (c10_str ''output_shape_hint_'' i))"
    unfolding hints
    by (auto simp: uint_scast_mod comp_def split: list.splits if_splits)
next
  assume "0 \<le> i"
  then show "\<exists>digits. c10_str ''output_shape_hint_'' i = ''output_shape_hint_'' @ digits
           \<and> decimal_value digits = nat i \<and> digits \<noteq> []
           \<and> set digits \<subseteq> set ''0123456789'' \<and> (hd digits = CHR ''0'' \<longrightarrow> digits = ''0'')"
    by (rule c10_str_key)
next
  show "c10_str ''output_shape_hint_'' 10 = ''output_shape_hint_10''"
    by (rule c10_str_10)
next
  show "OnnxifiOp env (operator_def\<lparr>arg_ints := (arg_ints operator_def)(key \<mapsto> [])\<rparr>) ws c log
     = OnnxifiOp env (operator_def\<lparr>arg_ints := (arg_ints operator_def)(key := None)\<rparr>) ws c log"
    by (rule OnnxifiOp_empty_hint)
qed

theorem C10_output_shape_hints_witness:
  "OnnxifiOp example_env example_def_second_output () () []
     = (Inr example_this_second_output, (), example_log)
   \<and> GetRepeatedArgument_int example_def_second_output ''output_shape_hint_1'' = [1, - 1]
   \<and> output_shape_hints_' example_this_second_output 1 = Some \<lparr>dims = [- 1], onnxifi_type = 1\<rparr>
   \<and> map uint [1, - 1 :: 64 word] = [1, 18446744073709551615]
   \<and> GetRepeatedArgument_int example_def_second_output ''output_shape_hint_0'' = []
   \<and> output_shape_hints_' example_this_second_output 0 = None
   \<and> output_shape_hints_' example_this_second_output 2 = None
   \<and> c10_str ''output_shape_hint_'' 1 = ''output_shape_hint_1''
   \<and> decimal_value ''1'' = 1
   \<and> OnnxifiOp example_env
         (example_def\<lparr>arg_ints := (arg_ints example_def)(''output_shape_hint_0'' \<mapsto> [])\<rparr>) () () []
     = OnnxifiOp example_env
         (example_def\<lparr>arg_ints := (arg_ints example_def)(''output_shape_hint_0'' := None)\<rparr>) () () []"
proof -
  note ok = example_construction_second_output
  have k0: "c10_str ''output_shape_hint_'' 0 = ''output_shape_hint_0''"
    and k1: "c10_str ''output_shape_hint_'' 1 = ''output_shape_hint_1''"
    by (simp_all add: c10_str_def decimal.simps)
  have h1: "GetRepeatedArgument_int example_def_second_output ''output_shape_hint_1'' = [1, - 1]"
    and h0: "GetRepeatedArgument_int example_def_second_output ''output_shape_hint_0'' = []"
    by (simp_all add: example_def_second_output_def example_def_def GetRepeatedArgument_int_def)
  have n: "output_size example_def_second_output = 2"
    by (simp add: example_def_second_output_def example_def_def)
  have v: "decimal_value ''1'' = 1" by (simp add: decimal_value_def)
  from C10_output_shape_hints [where env = example_env and operator_def = example_def_second_output
      and ws = "()" and c = "()" and log = "[]" and this = example_this_second_output and c' = "()"
      and log' = example_log and i = 1 and key = "[]"] ok
  have a: "output_shape_hints_' example_this_second_output 1 = Some \<lparr>dims = [- 1], onnxifi_type = 1\<rparr>
      \<and> map uint [1, - 1 :: 64 word] = [1, 18446744073709551615]"
    by (auto simp: k1 h1 n)
  from C10_output_shape_hints [where env = example_env and operator_def = example_def_second_output
      and ws = "()" and c = "()" and log = "[]" and this = example_this_second_output and c' = "()"
      and log' = example_log and i = 0 and key = "[]"] ok
  have b: "output_shape_hints_' example_this_second_output 0 = None"
    by (simp add: k0 h0 n)
  from C10_output_shape_hints [where env = example_env and operator_def = example_def_second_output
      and ws = "()" and c = "()" and log = "[]" and this = example_this_second_output and c' = "()"
      and log' = example_log and i = 2 and key = "[]"] ok
  have b2: "output_shape_hints_' example_this_second_output 2 = None"
    by (simp add: n)
  from C10_output_shape_hints [where env = example_env and operator_def = example_def
      and ws = "()" and c = "()" and log = "[]" and key = "''output_shape_hint_0''" and i = 0]
  have c: "OnnxifiOp example_env
         (example_def\<lparr>arg_ints := (arg_ints example_def)(''output_shape_hint_0'' \<mapsto> [])\<rparr>) () () []
     = OnnxifiOp example_env
         (example_def\<lparr>arg_ints := (arg_ints example_def)(''output_shape_hint_0'' := None)\<rparr>) () () []"
    by simp
  from ok h1 a h0 b b2 k1 v c show ?thesis by simp
qed

section \<open>Descriptor lists\<close>

text \<open>
  Claim C7. Construction fails when the number of declared input names differs from
  the input arity or the number of declared output names from the output arity. When it
  succeeds, the input and output descriptor lists hold one descriptor per declared name,
  in the declared order, and any number of per-call refreshes leaves their sizes and
  names as they are. (The refresh is \<open>refresh_descriptors\<close>, modelled from the
  specification.)
\<close>

theorem C7_descriptor_lists:
  "(length (GetRepeatedArgument_string operator_def ''input_names'') \<noteq> input_size operator_def
     \<or> length (GetRepeatedArgument_string operator_def ''output_names'') \<noteq> output_size operator_def
     \<longrightarrow> (\<exists>e. OnnxifiOp env operator_def ws c log = (Inl e, c, log)))
   \<and> (OnnxifiOp env operator_def ws c log = (Inr this, c', log') \<longrightarrow>
        length (input_desc_' this) = input_size operator_def
      \<and> length (output_desc_' this) = output_size operator_def
      \<and> map name (input_desc_' this) = GetRepeatedArgument_string operator_def ''input_names''
      \<and> map name (output_desc_' this) = GetRepeatedArgument_string operator_def ''output_names''
      \<and> (\<forall>calls.
            map name (input_desc_' (foldl refresh_descriptors this calls))
              = GetRepeatedArgument_string operator_def ''input_names''
          \<and> map name (output_desc_' (foldl refresh_descriptors this calls))
              = GetRepeatedArgument_string operator_def ''output_names''))"
proof (intro conjI impI)
  assume "length (GetRepeatedArgument_string operator_def ''input_names'') \<noteq> input_size operator_def
     \<or> length (GetRepeatedArgument_string operator_def ''output_names'') \<noteq> output_size operator_def"
  then show "\<exists>e. OnnxifiOp env operator_def ws c log = (Inl e, c, log)"
    by (rule OnnxifiOp_arity_mismatch)
next
  assume ok: "OnnxifiOp env operator_def ws c log = (Inr this, c', log')"
  have ins: "map name (input_desc_' this) = GetRepeatedArgument_string operator_def ''input_names''"
    using OnnxifiOp_Inr(9) [OF ok] by (simp add: input_loop_eq comp_def)
  have outs: "map name (output_desc_' this) = GetRepeatedArgument_string operator_def ''output_names''"
    using OnnxifiOp_Inr(10) [OF ok] by (simp add: output_loop_descs comp_def)
  show "length (input_desc_' this) = input_size operator_def"
    using arg_cong [OF ins, of length] OnnxifiOp_Inr(1) [OF ok] by simp
  show "length (output_desc_' this) = output_size operator_def"
    using arg_cong [OF outs, of length] OnnxifiOp_Inr(2) [OF ok] by simp
  show "map name (input_desc_' this) = GetRepeatedArgument_string operator_def ''input_names''"
    by (rule ins)
  show "map name (output_desc_' this) = GetRepeatedArgument_string operator_def ''output_names''"
    by (rule outs)
  show "\<forall>calls.
            map name (input_desc_' (foldl refresh_descriptors this calls))
              = GetRepeatedArgument_string operator_def ''input_names''
          \<and> map name (output_desc_' (foldl refresh_descriptors this calls))
              = GetRepeatedArgument_string operator_def ''output_names''"
    using ins outs by (simp add: foldl_refresh_names)
qed

theorem C7_descriptor_lists_witness:
  "OnnxifiOp example_env example_def () () [] = (Inr example_this, (), example_log)
   \<and> length (input_desc_' example_this) = 2 \<and> length (output_desc_' example_this) = 1
   \<and> map name (input_desc_' example_this) = [''x'', ''y'']
   \<and> map name (output_desc_' example_this) = [''z'']
   \<and> map name (input_desc_'
         (foldl refresh_descriptors example_this [(\<lambda>i. ([2, 3], 4096), \<lambda>i. 8192)]))
       = [''x'', ''y'']
   \<and> length (GetRepeatedArgument_string (example_def\<lparr>input_size := 3\<rparr>) ''input_names'')
       \<noteq> input_size (example_def\<lparr>input_size := 3\<rparr>)
   \<and> (\<exists>e. OnnxifiOp example_env (example_def\<lparr>input_size := 3\<rparr>) () () [] = (Inl e, (), []))"
proof -
  note ok = example_construction
  have names: "GetRepeatedArgument_string example_def ''input_names'' = [''x'', ''y'']"
    "GetRepeatedArgument_string example_def ''output_names'' = [''z'']"
    "input_size example_def = 2" "output_size example_def = 1"
    by (simp_all add: example_def_def GetRepeatedArgument_string_def)
  from C7_descriptor_lists [where env = example_env and operator_def = example_def
      and ws = "()" and c = "()" and log = "[]" and this = example_this and c' = "()"
      and log' = example_log] ok
  have a: "length (input_desc_' example_this) = 2 \<and> length (output_desc_' example_this) = 1
   \<and> map name (input_desc_' example_this) = [''x'', ''y'']
   \<and> map name (output_desc_' example_this) = [''z'']
   \<and> map name (input_desc_'
         (foldl refresh_descriptors example_this [(\<lambda>i. ([2, 3], 4096), \<lambda>i. 8192)]))
       = [''x'', ''y'']"
    unfolding names by blast
  have mis: "length (GetRepeatedArgument_string (example_def\<lparr>input_size := 3\<rparr>) ''input_names'')
       \<noteq> input_size (example_def\<lparr>input_size := 3\<rparr>)"
    by (simp add: example_def_def GetRepeatedArgument_string_def)
  from C7_descriptor_lists [where env = example_env
      and operator_def = "example_def\<lparr>input_size := 3\<rparr>"
      and ws = "()" and c = "()" and log = "[]"] mis
  have b: "\<exists>e. OnnxifiOp example_env (example_def\<lparr>input_size := 3\<rparr>) () () [] = (Inl e, (), [])"
    by blast
  from ok a mis b show ?thesis by blast
qed

section \<open>Initializers\<close>

text \<open>
  Claim C6. With an initializer list of odd length the constructor fails on an enforced
  check and has made no call into the library (the log and the shared map are as
  before); when the checks before it pass (the library loads, the model is not empty,
  the name lists have the declared lengths), the check that fails is the one on the
  pairing, with the message \<^verbatim>\<open>initializers should come in pairs\<close>. A list of even
  length is read as consecutive (original name, workspace name) pairs: the rename
  mapping maps each original name to the workspace name of its first pair, and the set
  holds the original names; a successful construction has obtained the weight
  descriptors for exactly this mapping and this set.
\<close>

theorem C6_initializers:
  "(odd (length (GetRepeatedArgument_string operator_def ''initializers'')) \<longrightarrow>
      (\<exists>msg. OnnxifiOp env operator_def ws c log = (Inl (EnforceFailed msg), c, log)))
   \<and> (initOnnxifiLibrary env \<noteq> None
      \<and> GetSingleArgument_string operator_def ''onnx_model'' [] \<noteq> []
      \<and> length (GetRepeatedArgument_string operator_def ''input_names'') = input_size operator_def
      \<and> length (GetRepeatedArgument_string operator_def ''output_names'') = output_size operator_def
      \<and> odd (length (GetRepeatedArgument_string operator_def ''initializers'')) \<longrightarrow>
      OnnxifiOp env operator_def ws c log
        = (Inl (EnforceFailed ''initializers should come in pairs''), c, log))
   \<and> (even (length initializers) \<longrightarrow>
      initializers_loop initializers Map.empty {} =
        Some (map_of (initializer_pairs initializers), fst ` set (initializer_pairs initializers)))
   \<and> (OnnxifiOp env operator_def ws c log = (Inr this, c', log') \<longrightarrow>
      (\<exists>weight_descs.
         buildInitializationList env ws
           (map_of (initializer_pairs (GetRepeatedArgument_string operator_def ''initializers'')))
           (fst ` set (initializer_pairs (GetRepeatedArgument_string operator_def ''initializers'')))
         = Inr weight_descs))"
  using OnnxifiOp_odd_initializers [of operator_def env ws c log]
    OnnxifiOp_odd_initializers_message [of env operator_def ws c log]
    initializers_loop_eq [of initializers Map.empty "{}"]
    OnnxifiOp_weights [of env operator_def ws c log this c' log']
  by simp

theorem C6_initializers_witness:
  "odd (length (GetRepeatedArgument_string example_def_odd ''initializers''))
   \<and> initOnnxifiLibrary example_env \<noteq> None
   \<and> GetSingleArgument_string example_def_odd ''onnx_model'' [] \<noteq> []
   \<and> length (GetRepeatedArgument_string example_def_odd ''input_names'') = input_size example_def_odd
   \<and> length (GetRepeatedArgument_string example_def_odd ''output_names'') = output_size example_def_odd
   \<and> OnnxifiOp example_env example_def_odd () () []
       = (Inl (EnforceFailed ''initializers should come in pairs''), (), [])
   \<and> even (length [''w'', ''v'', ''w'', ''u''])
   \<and> initializers_loop [''w'', ''v'', ''w'', ''u''] Map.empty {} = Some ([''w'' \<mapsto> ''v''], {''w''})
   \<and> OnnxifiOp example_env example_def () () [] = (Inr example_this, (), example_log)
   \<and> buildInitializationList example_env () Map.empty {} = Inr []"
proof -
  have odd: "odd (length (GetRepeatedArgument_string example_def_odd ''initializers''))"
    by (simp add: example_def_odd_def GetRepeatedArgument_string_def)
  have pre: "initOnnxifiLibrary example_env \<noteq> None"
    "GetSingleArgument_string example_def_odd ''onnx_model'' [] \<noteq> []"
    "length (GetRepeatedArgument_string example_def_odd ''input_names'') = input_size example_def_odd"
    "length (GetRepeatedArgument_string example_def_odd ''output_names'') = output_size example_def_odd"
    by (simp_all add: example_env_def example_def_odd_def example_def_def
        GetSingleArgument_string_def GetRepeatedArgument_string_def)
  have m: "map_of (initializer_pairs [''w'', ''v'', ''w'', ''u'']) = [''w'' \<mapsto> ''v'']"
    by (auto simp: fun_eq_iff)
  have e: "GetRepeatedArgument_string example_def ''initializers'' = []"
    by (simp add: example_def_def GetRepeatedArgument_string_def)
  from C6_initializers [where operator_def = example_def_odd and env = example_env
      and ws = "()" and c = "()" and log = "[]" and initializers = "[''w'', ''v'', ''w'', ''u'']"
      and this = example_this and c' = "()" and log' = "[]"] odd pre
  have "OnnxifiOp example_env example_def_odd () () []
       = (Inl (EnforceFailed ''initializers should come in pairs''), (), [])
    \<and> initializers_loop [''w'', ''v'', ''w'', ''u''] Map.empty {} = Some ([''w'' \<mapsto> ''v''], {''w''})"
    by (simp add: m)
  moreover
  from C6_initializers [where operator_def = example_def and env = example_env
      and ws = "()" and c = "()" and log = "[]" and this = example_this and c' = "()"
      and log' = example_log and initializers = "[]"] example_construction
  have "buildInitializationList example_env () Map.empty {} = Inr []"
    by (simp add: e example_env_def)
  ultimately show ?thesis using odd pre example_construction by simp
qed

section \<open>The creator\<close>

lemma release_unused_log:
  "release_unused lib' ids n idx i log = (r, log') \<Longrightarrow>
   \<exists>new. log' = log @ new \<and> (\<forall>ev\<in>set new. \<exists>b. fst ev = onnxReleaseBackendID_call b)"
proof (induction lib' ids n idx i log rule: release_unused.induct)
  case (1 lib' ids n idx i log)
  show ?case
  proof (cases "\<not> 2 ^ 31 \<le> i \<and> i < unat n \<and> (int i = sint idx \<or> \<not> length ids \<le> i)")
    case False
    then show ?thesis using "1.prems"
      by (subst (asm) release_unused.simps) (auto split: if_splits)
  next
    case True
    show ?thesis
    proof (cases "int i = sint idx")
      case same: True
      with True "1.prems" have "release_unused lib' ids n idx (i + 1) log = (r, log')"
        by (subst (asm) release_unused.simps) simp
      with "1.IH"(1) True same show ?thesis by simp
    next
      case diff: False
      let ?log1 = "log @ [(onnxReleaseBackendID_call (ids ! i), onnxReleaseBackendID lib' log (ids ! i))]"
      from diff True "1.prems" have "release_unused lib' ids n idx (i + 1) ?log1 = (r, log')"
        by (subst (asm) release_unused.simps) simp
      with "1.IH"(2) True diff obtain new where
        "log' = ?log1 @ new" "\<forall>ev\<in>set new. \<exists>b. fst ev = onnxReleaseBackendID_call b"
        by auto
      then show ?thesis by auto
    qed
  qed
qed

lemma release_unused_Inr:
  "release_unused lib' ids n idx i log = (Inr u, log') \<Longrightarrow> i \<le> unat n \<Longrightarrow>
   map fst log' = map fst log @
     map (\<lambda>j. onnxReleaseBackendID_call (ids ! j)) (filter (\<lambda>j. int j \<noteq> sint idx) [i..<unat n])
   \<and> unat n < 2 ^ 31"
proof (induction lib' ids n idx i log rule: release_unused.induct)
  case (1 lib' ids n idx i log)
  show ?case
  proof (cases "i < unat n")
    case False
    then show ?thesis using "1.prems"
      by (subst (asm) release_unused.simps) (auto split: if_splits)
  next
    case less: True
    then have upt: "[i..<unat n] = i # [i + 1..<unat n]"
      by (simp add: upt_rec)
    from "1.prems" have small: "\<not> 2 ^ 31 \<le> i"
      by (subst (asm) release_unused.simps) (auto split: if_splits)
    show ?thesis
    proof (cases "int i = sint idx")
      case same: True
      with less small "1.prems" have "release_unused lib' ids n idx (i + 1) log = (Inr u, log')"
        by (subst (asm) release_unused.simps) simp
      with "1.IH"(1) less small same show ?thesis by (simp add: upt)
    next
      case diff: False
      let ?log1 = "log @ [(onnxReleaseBackendID_call (ids ! i), onnxReleaseBackendID lib' log (ids ! i))]"
      from diff less small "1.prems" have inr: "\<not> length ids \<le> i"
        by (subst (asm) release_unused.simps) (auto split: if_splits)
      with diff less small "1.prems" have "release_unused lib' ids n idx (i + 1) ?log1 = (Inr u, log')"
        by (subst (asm) release_unused.simps) simp
      with "1.IH"(2) less small diff inr show ?thesis by (simp add: upt)
    qed
  qed
qed


lemma release_unused_Inl:
  "release_unused lib' ids n idx i log = (Inl e, log') \<Longrightarrow> \<exists>s. e = UndefinedBehaviour s"
proof (induction lib' ids n idx i log rule: release_unused.induct)
  case (1 lib' ids n idx i log)
  show ?case
  proof (cases "\<not> 2 ^ 31 \<le> i \<and> i < unat n \<and> (int i = sint idx \<or> \<not> length ids \<le> i)")
    case False
    then show ?thesis using "1.prems"
      by (subst (asm) release_unused.simps) (auto split: if_splits)
  next
    case True
    show ?thesis
    proof (cases "int i = sint idx")
      case same: True
      with True "1.prems" have "release_unused lib' ids n idx (i + 1) log = (Inl e, log')"
        by (subst (asm) release_unused.simps) simp
      with "1.IH"(1) True same show ?thesis by simp
    next
      case diff: False
      let ?log1 = "log @ [(onnxReleaseBackendID_call (ids ! i), onnxReleaseBackendID lib' log (ids ! i))]"
      from diff True "1.prems" have "release_unused lib' ids n idx (i + 1) ?log1 = (Inl e, log')"
        by (subst (asm) release_unused.simps) simp
      with "1.IH"(2) True diff show ?thesis by simp
    qed
  qed
qed

lemma creator_invalid:
  assumes "onnxGetBackendIDs lib' log None 0 = (st, ws, n)"
    and "\<not> (0 < n \<and> (scast idx :: 64 word) < n)"
  shows "\<exists>e. creator lib' pp idx model weights log = (Inl e, log @ [(onnxGetBackendIDs_call None 0, st)])"
  using assms by (auto simp: creator_def Let_def)

lemma released_accepted: "fst ev = onnxReleaseBackendID_call b \<Longrightarrow> accepted ev"
  by (cases ev) simp

lemma release_unused_accepted:
  assumes "release_unused lib' ids n idx i log = (r, log')"
  shows "\<exists>new. log' = log @ new \<and> (\<forall>ev\<in>set new. accepted ev)
           \<and> (new \<noteq> [] \<longrightarrow> accepted (last new))
           \<and> (\<forall>e. r = Inl e \<longrightarrow> (\<exists>s. e = UndefinedBehaviour s))"
proof -
  from release_unused_log [OF assms] obtain new where
    n: "log' = log @ new" "\<forall>ev\<in>set new. \<exists>b. fst ev = onnxReleaseBackendID_call b"
    by blast
  then have "\<forall>ev\<in>set new. accepted ev" by (blast intro: released_accepted)
  with n(1) release_unused_Inl assms show ?thesis by (auto intro: last_in_set)
qed

lemma creator_log:
  assumes "creator lib' pp idx model weights log = (r, log')"
  shows "log' = log @ drop (length log) log' \<and> drop (length log) log' \<noteq> []
       \<and> (\<forall>ev\<in>set (butlast (drop (length log) log')). accepted ev)
       \<and> (\<not> accepted (last log') \<longrightarrow> (\<exists>msg. r = Inl (EnforceFailed msg)))
       \<and> (isl r \<longrightarrow> \<not> accepted (last log')
             \<or> (\<exists>st. drop (length log) log' = [(onnxGetBackendIDs_call None 0, st)])
             \<or> (\<exists>s. r = Inl (UndefinedBehaviour s)))"
  using assms
  apply (simp add: creator_def Let_def split: prod.splits if_splits sum.splits)
  apply (auto dest!: release_unused_accepted dest: in_set_butlastD simp: butlast_append
      split: if_splits)
  by (blast dest: in_set_butlastD)

lemma sint_32_bounds: "- (2 ^ 31) \<le> sint (x :: 32 word) \<and> sint x < 2 ^ 31"
  using sint_ge [of x] sint_lt [of x] by simp

lemma uint_scast_nonneg:
  assumes "0 \<le> sint (idx :: 32 word)"
  shows "uint (scast idx :: 64 word) = sint idx"
proof -
  have "sint idx < 2 ^ 64" using sint_32_bounds [of idx] by simp
  with assms show ?thesis by (simp add: uint_scast_mod)
qed

lemma uint_scast_neg:
  assumes "sint (idx :: 32 word) < 0"
  shows "uint (scast idx :: 64 word) = 2 ^ 64 + sint idx"
proof -
  have "- (2 ^ 64) \<le> sint idx" using sint_32_bounds [of idx] by simp
  with assms have "(sint idx + 2 ^ 64) mod 2 ^ 64 = sint idx + 2 ^ 64"
    by (intro mod_pos_pos_trivial) simp_all
  moreover have "sint idx mod 2 ^ 64 = (sint idx + 2 ^ 64) mod 2 ^ 64"
    by simp
  ultimately show ?thesis by (simp add: uint_scast_mod)
qed

lemma index_out_of_range:
  assumes "int (unat (n :: 64 word)) \<le> sint (idx :: 32 word)"
  shows "\<not> (scast idx :: 64 word) < n"
proof -
  have "0 \<le> sint idx" using assms by (smt (verit) of_nat_0_le_iff)
  then have "uint (scast idx :: 64 word) = sint idx" by (rule uint_scast_nonneg)
  with assms show ?thesis by (simp add: word_less_def)
qed

lemma selected_index:
  assumes "(scast (idx :: 32 word) :: 64 word) < n" and "\<not> vector_max_size < n"
  shows "0 \<le> sint idx \<and> int (unat (scast idx :: 64 word)) = sint idx"
proof -
  have lt: "uint (scast idx :: 64 word) < uint n" using assms(1) by (simp add: word_less_def)
  have "uint n < 2 ^ 60" using assms(2)
    by (simp add: vector_max_size_def word_less_def not_less)
  with lt have small: "uint (scast idx :: 64 word) < 2 ^ 60" by simp
  have nonneg: "0 \<le> sint idx"
  proof (rule ccontr)
    assume "\<not> 0 \<le> sint idx"
    then have "uint (scast idx :: 64 word) = 2 ^ 64 + sint idx" by (simp add: uint_scast_neg)
    with small sint_32_bounds [of idx] show False by simp
  qed
  then show ?thesis by (simp add: uint_scast_nonneg)
qed

lemma creator_Inr:
  assumes "creator lib' pp idx model weights log = (Inr info, log')"
  shows "\<exists>ws1 n ws n' b g.
       onnxGetBackendIDs lib' log None 0 = (ONNXIFI_STATUS_FALLBACK, ws1, n)
     \<and> 0 < n \<and> (scast idx :: 64 word) < n
     \<and> onnxGetBackendIDs lib' (log @ [(onnxGetBackendIDs_call None 0, ONNXIFI_STATUS_FALLBACK)])
           (Some (unat n)) n = (ONNXIFI_STATUS_SUCCESS, ws, n')
     \<and> onnxInitBackend lib'
           (log @ [(onnxGetBackendIDs_call None 0, ONNXIFI_STATUS_FALLBACK),
                   (onnxGetBackendIDs_call (Some (unat n)) n, ONNXIFI_STATUS_SUCCESS)])
           (written_into (replicate (unat n) nullptr) ws ! unat (scast idx :: 64 word)) pp
         = (ONNXIFI_STATUS_SUCCESS, b)
     \<and> onnxInitGraph lib' (butlast log') b model weights = (ONNXIFI_STATUS_SUCCESS, g)
     \<and> map fst log' = map fst log @
           [onnxGetBackendIDs_call None 0, onnxGetBackendIDs_call (Some (unat n)) n,
            onnxInitBackend_call
              (written_into (replicate (unat n) nullptr) ws ! unat (scast idx :: 64 word)) pp]
           @ map (\<lambda>j. onnxReleaseBackendID_call (written_into (replicate (unat n) nullptr) ws ! j))
               (filter (\<lambda>j. j \<noteq> unat (scast idx :: 64 word)) [0..<unat n'])
           @ [onnxInitGraph_call b model weights]
     \<and> info = \<lparr>backend_id = written_into (replicate (unat n) nullptr) ws ! unat (scast idx :: 64 word),
                backend = b, graph = g, lib = lib'\<rparr>"
proof -
  obtain st1 ws1 n where c1: "onnxGetBackendIDs lib' log None 0 = (st1, ws1, n)"
    by (metis prod_cases3)
  let ?log1 = "log @ [(onnxGetBackendIDs_call None 0, st1)]"
  obtain st2 ws n' where c2: "onnxGetBackendIDs lib' ?log1 (Some (unat n)) n = (st2, ws, n')"
    by (metis prod_cases3)
  let ?log2 = "?log1 @ [(onnxGetBackendIDs_call (Some (unat n)) n, st2)]"
  let ?ids = "written_into (replicate (unat n) nullptr) ws"
  let ?sel = "unat (scast idx :: 64 word)"
  obtain st3 b where c3: "onnxInitBackend lib' ?log2 (?ids ! ?sel) pp = (st3, b)"
    by (metis surj_pair)
  let ?log3 = "?log2 @ [(onnxInitBackend_call (?ids ! ?sel) pp, st3)]"
  obtain r4 log4 where c4: "release_unused lib' ?ids n' idx 0 ?log3 = (r4, log4)"
    by (metis surj_pair)
  obtain st5 g where c5: "onnxInitGraph lib' log4 b model weights = (st5, g)"
    by (metis surj_pair)
  from assms c1 c2 c3 c4 c5
  have ok: "st1 = ONNXIFI_STATUS_FALLBACK" "0 < n" "(scast idx :: 64 word) < n"
    "\<not> vector_max_size < n" "st2 = ONNXIFI_STATUS_SUCCESS" "st3 = ONNXIFI_STATUS_SUCCESS"
    "\<exists>u. r4 = Inr u" "st5 = ONNXIFI_STATUS_SUCCESS"
    "log' = log4 @ [(onnxInitGraph_call b model weights, st5)]"
    "info = \<lparr>backend_id = ?ids ! ?sel, backend = b, graph = g, lib = lib'\<rparr>"
    by (auto simp: creator_def Let_def split: if_splits sum.splits)
  from ok(7) c4 obtain u where "release_unused lib' ?ids n' idx 0 ?log3 = (Inr u, log4)"
    by blast
  from release_unused_Inr [OF this]
  have rel: "map fst log4 = map fst ?log3 @
      map (\<lambda>j. onnxReleaseBackendID_call (?ids ! j)) (filter (\<lambda>j. int j \<noteq> sint idx) [0..<unat n'])"
    by simp
  have sel: "int ?sel = sint idx"
    using selected_index [OF ok(3) ok(4)] by blast
  have "\<And>j. (int j \<noteq> sint idx) = (j \<noteq> ?sel)"
    unfolding sel [symmetric] by (simp only: of_nat_eq_iff)
  then have "filter (\<lambda>j. int j \<noteq> sint idx) [0..<unat n'] = filter (\<lambda>j. j \<noteq> ?sel) [0..<unat n']"
    by simp
  with rel have rel': "map fst log4 = map fst ?log3 @
      map (\<lambda>j. onnxReleaseBackendID_call (?ids ! j)) (filter (\<lambda>j. j \<noteq> ?sel) [0..<unat n'])"
    by simp
  show ?thesis
    apply (rule exI [of _ ws1], rule exI [of _ n], rule exI [of _ ws], rule exI [of _ n'],
        rule exI [of _ b], rule exI [of _ g])
    using c1 c2 c3 c5 ok rel' by simp
qed

section \<open>Construction around the creator\<close>

lemma OnnxifiOp_cases:
  "(\<exists>e. OnnxifiOp env operator_def wsp c log = (Inl e, c, log))
   \<or> (\<exists>this pp model weights. lib_' this = initOnnxifiLibrary env
         \<and> onnxSetIOAndRunGraphPointer_' this = nullptr
         \<and> OnnxifiOp env operator_def wsp c log
           = BuildBackendAndGraph env operator_def this pp model weights c log)"
proof (cases "\<exists>e. OnnxifiOp env operator_def wsp c log = (Inl e, c, log)")
  case True
  then show ?thesis by blast
next
  case False
  obtain output_desc hints where ol: "output_loop operator_def
      (GetRepeatedArgument_string operator_def ''output_names'') 0 [] Map.empty = (output_desc, hints)"
    by (metis surj_pair)
  let ?op = "OnnxifiOp_members_init
                   \<lparr>lib_' := initOnnxifiLibrary env,
                    input_desc_' := input_loop (GetRepeatedArgument_string operator_def ''input_names'') [],
                    output_desc_' := output_desc,
                    input_names_' := GetRepeatedArgument_string operator_def ''input_names'',
                    output_names_' := GetRepeatedArgument_string operator_def ''output_names'',
                    output_shape_hints_' := hints\<rparr>"
  from False ol have "\<exists>weights. OnnxifiOp env operator_def wsp c log
      = BuildBackendAndGraph env operator_def ?op (BuildPropertyList [])
          (GetSingleArgument_string operator_def ''onnx_model'' []) weights c log"
    by (auto simp: OnnxifiOp_def Let_def split: option.splits sum.splits if_splits)
  moreover have "lib_' ?op = initOnnxifiLibrary env" by simp
  moreover have "onnxSetIOAndRunGraphPointer_' ?op = nullptr"
    by (simp add: OnnxifiOp_members_init_def)
  ultimately show ?thesis by blast
qed

lemma OnnxifiOp_reaches_build:
  assumes late: "\<not> (\<exists>e. OnnxifiOp env operator_def wsp c log = (Inl e, c, log))"
    and build: "buildInitializationList env wsp
       (map_of (initializer_pairs (GetRepeatedArgument_string operator_def ''initializers'')))
       (fst ` set (initializer_pairs (GetRepeatedArgument_string operator_def ''initializers'')))
       = Inr weights"
  shows "\<exists>members. lib_' members = initOnnxifiLibrary env
         \<and> OnnxifiOp env operator_def wsp c log
           = BuildBackendAndGraph env operator_def members (BuildPropertyList [])
               (GetSingleArgument_string operator_def ''onnx_model'' []) weights c log"
proof -
  have ev: "even (length (GetRepeatedArgument_string operator_def ''initializers''))"
    using late OnnxifiOp_odd_initializers [of operator_def env wsp c log] by blast
  obtain output_desc hints where ol: "output_loop operator_def
      (GetRepeatedArgument_string operator_def ''output_names'') 0 [] Map.empty = (output_desc, hints)"
    by (metis surj_pair)
  let ?op = "OnnxifiOp_members_init
                   \<lparr>lib_' := initOnnxifiLibrary env,
                    input_desc_' := input_loop (GetRepeatedArgument_string operator_def ''input_names'') [],
                    output_desc_' := output_desc,
                    input_names_' := GetRepeatedArgument_string operator_def ''input_names'',
                    output_names_' := GetRepeatedArgument_string operator_def ''output_names'',
                    output_shape_hints_' := hints\<rparr>"
  from late ol build initializers_loop_eq [OF ev, of Map.empty "{}"]
  have "OnnxifiOp env operator_def wsp c log
      = BuildBackendAndGraph env operator_def ?op (BuildPropertyList [])
          (GetSingleArgument_string operator_def ''onnx_model'' []) weights c log"
    by (auto simp: OnnxifiOp_def Let_def split: option.splits sum.splits if_splits)
  moreover have "lib_' ?op = initOnnxifiLibrary env" by simp
  ultimately show ?thesis by blast
qed

lemma BuildBackendAndGraph_probe:
  assumes "lib_' this = Some lib'"
    and "graph_map_insert env
           (op_id_string (GetSingleArgument_string operator_def ''model_id'' [])
              (GetSingleArgument_string operator_def ''net_pos'' []))
           (creator lib' pp (GetSingleArgument_int operator_def ''backend_id'' 0) model weights)
           c log = (Inr info, c1, log1)"
    and "onnxGetExtensionFunctionAddress lib' log1 (backend_id info)
           ''onnxSetIOAndRunGraphFunction'' = (st, p)"
  shows "BuildBackendAndGraph env operator_def this pp model weights c log =
     (if ONNXIFI_ENABLE_EXT env then
        (Inr (this\<lparr>op_id_string_' :=
                     op_id_string (GetSingleArgument_string operator_def ''model_id'' [])
                       (GetSingleArgument_string operator_def ''net_pos'' []),
                   backend_graph_shared_ptr_' := Some info, backend_id_' := backend_id info,
                   backend_' := backend info, graph_' := graph info,
                   onnxSetIOAndRunGraphPointer_' :=
                     (if st = ONNXIFI_STATUS_SUCCESS then p else nullptr)\<rparr>),
         c1,
         log1 @ [(onnxGetExtensionFunctionAddress_call (backend_id info)
                    ''onnxSetIOAndRunGraphFunction'', st)])
      else
        (Inr (this\<lparr>op_id_string_' :=
                     op_id_string (GetSingleArgument_string operator_def ''model_id'' [])
                       (GetSingleArgument_string operator_def ''net_pos'' []),
                   backend_graph_shared_ptr_' := Some info, backend_id_' := backend_id info,
                   backend_' := backend info, graph_' := graph info\<rparr>),
         c1, log1))"
  using assms by (simp add: BuildBackendAndGraph_def Let_def)

lemma BuildBackendAndGraph_Inr:
  assumes "BuildBackendAndGraph env operator_def this pp model weights c log = (Inr this', c', log')"
  shows "\<exists>lib' info c1 log1.
       lib_' this' = Some lib' \<and> backend_graph_shared_ptr_' this' = Some info
     \<and> backend_id_' this' = backend_id info \<and> backend_' this' = backend info
     \<and> graph_' this' = graph info
     \<and> op_id_string_' this' = op_id_string (GetSingleArgument_string operator_def ''model_id'' [])
           (GetSingleArgument_string operator_def ''net_pos'' [])
     \<and> graph_map_insert env (op_id_string_' this')
           (creator lib' pp (GetSingleArgument_int operator_def ''backend_id'' 0) model weights)
           c log = (Inr info, c', log1)
     \<and> (if ONNXIFI_ENABLE_EXT env then
           (\<exists>st p. onnxGetExtensionFunctionAddress lib' log1 (backend_id info)
                      ''onnxSetIOAndRunGraphFunction'' = (st, p)
                  \<and> log' = log1 @ [(onnxGetExtensionFunctionAddress_call (backend_id info)
                                       ''onnxSetIOAndRunGraphFunction'', st)]
                  \<and> onnxSetIOAndRunGraphPointer_' this'
                      = (if st = ONNXIFI_STATUS_SUCCESS then p else nullptr))
         else log' = log1 \<and> onnxSetIOAndRunGraphPointer_' this' = onnxSetIOAndRunGraphPointer_' this)"
  using assms
  by (auto simp: BuildBackendAndGraph_def Let_def split: option.splits prod.splits sum.splits if_splits)

lemma example_count: "onnxGetBackendIDs example_lib [] None 0 = (ONNXIFI_STATUS_FALLBACK, [], 2)"
  by (simp add: example_lib_def)

lemma example_insert_runs_creator:
  "graph_map_insert example_env key create () [] = (fst (create []), (), snd (create []))"
  by (simp add: example_env_def split_beta)

section \<open>Backend enumeration\<close>

text \<open>
  Claim C5. When the count query reports no backend, or the requested backend index is
  at least the reported count, the creator fails having made the count query and no
  other call, so \<^verbatim>\<open>onnxInitBackend\<close> is not invoked. A construction whose \<^verbatim>\<open>insert\<close>
  returns what the creator returns fails as well, with the log either untouched (an
  earlier check failed) or extended by the count query alone.
\<close>

theorem C5_backend_index_out_of_range:
  "(onnxGetBackendIDs lib' log None 0 = (st, ids, n)
      \<and> (n = 0 \<or> int (unat n) \<le> sint backend_index) \<longrightarrow>
      (\<exists>e. creator lib' pp backend_index model weights log
            = (Inl e, log @ [(onnxGetBackendIDs_call None 0, st)])))
   \<and> (initOnnxifiLibrary env = Some lib'
      \<and> onnxGetBackendIDs lib' log None 0 = (st, ids, n)
      \<and> (n = 0 \<or> int (unat n) \<le> sint (GetSingleArgument_int operator_def ''backend_id'' 0))
      \<and> buildInitializationList env wsp
            (map_of (initializer_pairs (GetRepeatedArgument_string operator_def ''initializers'')))
            (fst ` set (initializer_pairs (GetRepeatedArgument_string operator_def ''initializers'')))
            = Inr descs
      \<and> graph_map_insert env
            (op_id_string (GetSingleArgument_string operator_def ''model_id'' [])
               (GetSingleArgument_string operator_def ''net_pos'' []))
            (creator lib' (BuildPropertyList [])
               (GetSingleArgument_int operator_def ''backend_id'' 0)
               (GetSingleArgument_string operator_def ''onnx_model'' []) descs)
            c log
          = (fst (creator lib' (BuildPropertyList [])
                    (GetSingleArgument_int operator_def ''backend_id'' 0)
                    (GetSingleArgument_string operator_def ''onnx_model'' []) descs log),
             cx,
             snd (creator lib' (BuildPropertyList [])
                    (GetSingleArgument_int operator_def ''backend_id'' 0)
                    (GetSingleArgument_string operator_def ''onnx_model'' []) descs log)) \<longrightarrow>
      (\<exists>e c' log'. OnnxifiOp env operator_def wsp c log = (Inl e, c', log')
         \<and> (log' = log \<or> log' = log @ [(onnxGetBackendIDs_call None 0, st)])))"
proof -
  have inv: "\<not> (0 < n \<and> (scast idx :: 64 word) < n)"
    if "n = 0 \<or> int (unat n) \<le> sint idx" for idx :: "32 word"
    using that index_out_of_range [of n idx] by auto
  have cr: "\<exists>e. creator lib' pp' idx model' weights' log
            = (Inl e, log @ [(onnxGetBackendIDs_call None 0, st)])"
    if "onnxGetBackendIDs lib' log None 0 = (st, ids, n)" "n = 0 \<or> int (unat n) \<le> sint idx"
    for idx pp' model' weights'
    using creator_invalid [OF that(1) inv [OF that(2)]] .
  show ?thesis
  proof (intro conjI impI)
    assume "onnxGetBackendIDs lib' log None 0 = (st, ids, n)
      \<and> (n = 0 \<or> int (unat n) \<le> sint backend_index)"
    then show "\<exists>e. creator lib' pp backend_index model weights log
            = (Inl e, log @ [(onnxGetBackendIDs_call None 0, st)])"
      using cr by blast
  next
    let ?key = "op_id_string (GetSingleArgument_string operator_def ''model_id'' [])
               (GetSingleArgument_string operator_def ''net_pos'' [])"
    let ?idx = "GetSingleArgument_int operator_def ''backend_id'' 0"
    let ?model = "GetSingleArgument_string operator_def ''onnx_model'' []"
    let ?build = "buildInitializationList env wsp
            (map_of (initializer_pairs (GetRepeatedArgument_string operator_def ''initializers'')))
            (fst ` set (initializer_pairs (GetRepeatedArgument_string operator_def ''initializers'')))"
    let ?cr = "creator lib' (BuildPropertyList []) ?idx ?model descs"
    assume a: "initOnnxifiLibrary env = Some lib'
      \<and> onnxGetBackendIDs lib' log None 0 = (st, ids, n)
      \<and> (n = 0 \<or> int (unat n) \<le> sint ?idx)
      \<and> ?build = Inr descs
      \<and> graph_map_insert env ?key ?cr c log = (fst (?cr log), cx, snd (?cr log))"
    show "\<exists>e c' log'. OnnxifiOp env operator_def wsp c log = (Inl e, c', log')
         \<and> (log' = log \<or> log' = log @ [(onnxGetBackendIDs_call None 0, st)])"
    proof (cases "\<exists>e. OnnxifiOp env operator_def wsp c log = (Inl e, c, log)")
      case True
      then show ?thesis by blast
    next
      case False
      from a have w: "?build = Inr descs" by blast
      from OnnxifiOp_reaches_build [OF False w] a obtain members where
        m: "lib_' members = Some lib'"
          "OnnxifiOp env operator_def wsp c log
             = BuildBackendAndGraph env operator_def members (BuildPropertyList []) ?model descs c log"
        by auto
      from cr [of ?idx "BuildPropertyList []" ?model descs] a obtain e where
        e: "?cr log = (Inl e, log @ [(onnxGetBackendIDs_call None 0, st)])"
        by blast
      with a have "graph_map_insert env ?key ?cr c log
            = (Inl e, cx, log @ [(onnxGetBackendIDs_call None 0, st)])"
        by simp
      with m show ?thesis by (simp add: BuildBackendAndGraph_def Let_def)
    qed
  qed
qed

theorem C5_backend_index_out_of_range_witness:
  "onnxGetBackendIDs example_lib [] None 0 = (ONNXIFI_STATUS_FALLBACK, [], 2)
   \<and> int (unat (2 :: 64 word)) \<le> sint (2 :: 32 word)
   \<and> (\<exists>e. creator example_lib [ONNXIFI_BACKEND_PROPERTY_NONE] 2 ''M'' [] []
          = (Inl e, [(onnxGetBackendIDs_call None 0, ONNXIFI_STATUS_FALLBACK)]))
   \<and> initOnnxifiLibrary example_env = Some example_lib
   \<and> GetSingleArgument_int example_def_out_of_range ''backend_id'' 0 = 2
   \<and> buildInitializationList example_env () Map.empty {} = Inr []
   \<and> graph_map_insert example_env ''m:0''
         (creator example_lib [ONNXIFI_BACKEND_PROPERTY_NONE] 2 ''M'' []) () []
       = (fst (creator example_lib [ONNXIFI_BACKEND_PROPERTY_NONE] 2 ''M'' [] []), (),
          snd (creator example_lib [ONNXIFI_BACKEND_PROPERTY_NONE] 2 ''M'' [] []))
   \<and> (\<exists>e c' log'. OnnxifiOp example_env example_def_out_of_range () () [] = (Inl e, c', log')
        \<and> (log' = [] \<or> log' = [(onnxGetBackendIDs_call None 0, ONNXIFI_STATUS_FALLBACK)]))"
proof -
  have le: "int (unat (2 :: 64 word)) \<le> sint (2 :: 32 word)" by simp
  have env: "initOnnxifiLibrary example_env = Some example_lib" by (simp add: example_env_def)
  have idx: "GetSingleArgument_int example_def_out_of_range ''backend_id'' 0 = 2"
    by (simp add: example_def_out_of_range_def GetSingleArgument_int_def)
  have key: "op_id_string (GetSingleArgument_string example_def_out_of_range ''model_id'' [])
      (GetSingleArgument_string example_def_out_of_range ''net_pos'' []) = ''m:0''"
    by (simp add: example_def_out_of_range_def example_def_def GetSingleArgument_string_def
        op_id_string_def)
  have model: "GetSingleArgument_string example_def_out_of_range ''onnx_model'' [] = ''M''"
    by (simp add: example_def_out_of_range_def example_def_def GetSingleArgument_string_def)
  have inits: "GetRepeatedArgument_string example_def_out_of_range ''initializers'' = []"
    by (simp add: example_def_out_of_range_def example_def_def GetRepeatedArgument_string_def)
  have build: "buildInitializationList example_env () Map.empty {} = Inr []"
    by (simp add: example_env_def)
  have pp: "BuildPropertyList [] = [ONNXIFI_BACKEND_PROPERTY_NONE]"
    by (simp add: BuildPropertyList_def)
  note ins = example_insert_runs_creator [of "''m:0''"
      "creator example_lib [ONNXIFI_BACKEND_PROPERTY_NONE] 2 ''M'' []"]
  note inst = C5_backend_index_out_of_range [where lib' = example_lib and log = "[]"
      and st = ONNXIFI_STATUS_FALLBACK and ids = "[]" and n = 2 and backend_index = 2
      and pp = "[ONNXIFI_BACKEND_PROPERTY_NONE]" and model = "''M''" and weights = "[]"
      and env = example_env and operator_def = example_def_out_of_range and c = "()"
      and wsp = "()" and descs = "[]" and cx = "()"]
  from inst example_count le
  have a: "\<exists>e. creator example_lib [ONNXIFI_BACKEND_PROPERTY_NONE] 2 ''M'' [] []
          = (Inl e, [(onnxGetBackendIDs_call None 0, ONNXIFI_STATUS_FALLBACK)])"
    by simp
  from inst example_count le env idx key model inits build pp ins
  have b: "\<exists>e c' log'. OnnxifiOp example_env example_def_out_of_range () () [] = (Inl e, c', log')
        \<and> (log' = [] \<or> log' = [(onnxGetBackendIDs_call None 0, ONNXIFI_STATUS_FALLBACK)])"
    by simp
  from example_count le a env idx build ins b show ?thesis by blast
qed




section \<open>What a successful construction obtained\<close>

lemma OnnxifiOp_built:
  assumes "OnnxifiOp env operator_def wsp c log = (Inr this, c', log')"
  shows "\<exists>this0 pp model weights. lib_' this0 = initOnnxifiLibrary env
         \<and> onnxSetIOAndRunGraphPointer_' this0 = nullptr
         \<and> BuildBackendAndGraph env operator_def this0 pp model weights c log = (Inr this, c', log')"
proof -
  from OnnxifiOp_cases [of env operator_def wsp c log] assms
  obtain this0 pp model weights where "lib_' this0 = initOnnxifiLibrary env"
    "onnxSetIOAndRunGraphPointer_' this0 = nullptr"
    "OnnxifiOp env operator_def wsp c log
       = BuildBackendAndGraph env operator_def this0 pp model weights c log"
    by auto
  with assms show ?thesis by metis
qed

lemma OnnxifiOp_obtained:
  assumes "OnnxifiOp env operator_def wsp c log = (Inr this, c', log')"
  shows "\<exists>lib' info log1 create.
       lib_' this = Some lib' \<and> backend_graph_shared_ptr_' this = Some info
     \<and> backend_id_' this = backend_id info \<and> backend_' this = backend info
     \<and> graph_' this = graph info
     \<and> op_id_string_' this = op_id_string (GetSingleArgument_string operator_def ''model_id'' [])
           (GetSingleArgument_string operator_def ''net_pos'' [])
     \<and> graph_map_insert env (op_id_string_' this) create c log = (Inr info, c', log1)
     \<and> (if ONNXIFI_ENABLE_EXT env then
           (\<exists>st p. onnxGetExtensionFunctionAddress lib' log1 (backend_id info)
                      ''onnxSetIOAndRunGraphFunction'' = (st, p)
                  \<and> log' = log1 @ [(onnxGetExtensionFunctionAddress_call (backend_id info)
                                       ''onnxSetIOAndRunGraphFunction'', st)]
                  \<and> onnxSetIOAndRunGraphPointer_' this
                      = (if st = ONNXIFI_STATUS_SUCCESS then p else nullptr))
         else log' = log1 \<and> onnxSetIOAndRunGraphPointer_' this = nullptr)"
proof -
  from OnnxifiOp_built [OF assms] obtain this0 pp model weights where
    p0: "onnxSetIOAndRunGraphPointer_' this0 = nullptr" and
    b: "BuildBackendAndGraph env operator_def this0 pp model weights c log = (Inr this, c', log')"
    by blast
  from BuildBackendAndGraph_Inr [OF b] p0 show ?thesis
    by (auto split: if_splits)
qed

section \<open>Further runs of the creator\<close>

lemma example_creator_no_extension:
  "creator example_lib_no_extension [ONNXIFI_BACKEND_PROPERTY_NONE] 0 ''M'' [] [] =
     (Inr \<lparr>backend_id = 11, backend = 111, graph = 1111, lib = example_lib_no_extension\<rparr>,
      take 5 example_log)"
  by (simp add: creator_def release_unused.simps example_lib_def example_lib_no_extension_def
      example_log_def
      ONNXIFI_STATUS_SUCCESS_def ONNXIFI_STATUS_FALLBACK_def vector_max_size_def
      written_into_def nullptr_def Let_def)

lemma example_creator_count_success:
  "creator example_lib_count_success [ONNXIFI_BACKEND_PROPERTY_NONE] 0 ''M'' [] [] =
     (Inl (EnforceFailed ''onnxGetBackendIDs(nullptr) == FALLBACK''),
      [(onnxGetBackendIDs_call None 0, ONNXIFI_STATUS_SUCCESS)])"
  by (simp add: creator_def example_lib_def example_lib_count_success_def
      ONNXIFI_STATUS_SUCCESS_def ONNXIFI_STATUS_FALLBACK_def Let_def)

lemma example_creator_release_fails:
  "creator example_lib_release_fails [ONNXIFI_BACKEND_PROPERTY_NONE] 0 ''M'' [] [] =
     (Inr \<lparr>backend_id = 11, backend = 111, graph = 1111, lib = example_lib_release_fails\<rparr>,
      [(onnxGetBackendIDs_call None 0, ONNXIFI_STATUS_FALLBACK),
       (onnxGetBackendIDs_call (Some 2) 2, ONNXIFI_STATUS_SUCCESS),
       (onnxInitBackend_call 11 [ONNXIFI_BACKEND_PROPERTY_NONE], ONNXIFI_STATUS_SUCCESS),
       (onnxReleaseBackendID_call 12, 2),
       (onnxInitGraph_call 111 ''M'' [], ONNXIFI_STATUS_SUCCESS)])"
  by (simp add: creator_def release_unused.simps example_lib_def example_lib_release_fails_def
      ONNXIFI_STATUS_SUCCESS_def ONNXIFI_STATUS_FALLBACK_def vector_max_size_def
      written_into_def nullptr_def Let_def)

lemma example_insert_no_extension:
  "graph_map_insert example_env
     (op_id_string (GetSingleArgument_string example_def ''model_id'' [])
        (GetSingleArgument_string example_def ''net_pos'' []))
     (creator example_lib_no_extension [ONNXIFI_BACKEND_PROPERTY_NONE]
        (GetSingleArgument_int example_def ''backend_id'' 0) ''M'' [])
     () [] =
   (Inr \<lparr>backend_id = 11, backend = 111, graph = 1111, lib = example_lib_no_extension\<rparr>, (),
    take 5 example_log)"
  by (simp add: example_env_def example_def_def GetSingleArgument_int_def
      example_creator_no_extension)

section \<open>Status codes\<close>

text \<open>
  Claim C4 says that on every call a success status lets execution proceed and any
  other status but the fallback of the count query is fatal. The count query must
  return the fallback code, so a success there is fatal; and the status of releasing an
  unused identity is not looked at, so a failure there is not.
\<close>

theorem C4_success_refused_and_failure_ignored:
  "creator example_lib_count_success [ONNXIFI_BACKEND_PROPERTY_NONE] 0 ''M'' [] [] =
     (Inl (EnforceFailed ''onnxGetBackendIDs(nullptr) == FALLBACK''),
      [(onnxGetBackendIDs_call None 0, ONNXIFI_STATUS_SUCCESS)])
   \<and> creator example_lib_release_fails [ONNXIFI_BACKEND_PROPERTY_NONE] 0 ''M'' [] [] =
     (Inr \<lparr>backend_id = 11, backend = 111, graph = 1111, lib = example_lib_release_fails\<rparr>,
      [(onnxGetBackendIDs_call None 0, ONNXIFI_STATUS_FALLBACK),
       (onnxGetBackendIDs_call (Some 2) 2, ONNXIFI_STATUS_SUCCESS),
       (onnxInitBackend_call 11 [ONNXIFI_BACKEND_PROPERTY_NONE], ONNXIFI_STATUS_SUCCESS),
       (onnxReleaseBackendID_call 12, 2),
       (onnxInitGraph_call 111 ''M'' [], ONNXIFI_STATUS_SUCCESS)])
   \<and> (2 :: onnxStatus) \<noteq> ONNXIFI_STATUS_SUCCESS \<and> (2 :: onnxStatus) \<noteq> ONNXIFI_STATUS_FALLBACK"
  using example_creator_count_success example_creator_release_fails
  by (simp add: ONNXIFI_STATUS_SUCCESS_def ONNXIFI_STATUS_FALLBACK_def)

text \<open>
  Claim C4, amended. In the creator the count query must return the fallback code, and
  the fill query, the backend initialisation and the graph initialisation must return
  success; a call that returns anything else is the last call and the creator fails
  with a diagnostic. The status of releasing an unused identity is not enforced. The
  creator fails only on a refused status, on the checks that follow the count query, or
  where the release loop leaves defined behaviour. The status of the extension probe is
  not enforced either: once the bundle is obtained, construction succeeds.
\<close>

theorem C4_status_discipline:
  "(creator lib' pp idx model weights log = (r, log') \<longrightarrow>
       log' = log @ drop (length log) log' \<and> drop (length log) log' \<noteq> []
     \<and> (\<forall>ev\<in>set (butlast (drop (length log) log')). accepted ev)
     \<and> (\<not> accepted (last log') \<longrightarrow> (\<exists>msg. r = Inl (EnforceFailed msg)))
     \<and> (isl r \<longrightarrow> \<not> accepted (last log')
           \<or> (\<exists>st. drop (length log) log' = [(onnxGetBackendIDs_call None 0, st)])
           \<or> (\<exists>s. r = Inl (UndefinedBehaviour s))))
   \<and> (lib_' this = Some lib'
      \<and> graph_map_insert env
           (op_id_string (GetSingleArgument_string operator_def ''model_id'' [])
              (GetSingleArgument_string operator_def ''net_pos'' []))
           (creator lib' pp (GetSingleArgument_int operator_def ''backend_id'' 0) model weights)
           c log = (Inr info, cx, logx) \<longrightarrow>
      (\<exists>this'. fst (BuildBackendAndGraph env operator_def this pp model weights c log) = Inr this'))"
proof (intro conjI impI)
  assume "lib_' this = Some lib'
      \<and> graph_map_insert env
           (op_id_string (GetSingleArgument_string operator_def ''model_id'' [])
              (GetSingleArgument_string operator_def ''net_pos'' []))
           (creator lib' pp (GetSingleArgument_int operator_def ''backend_id'' 0) model weights)
           c log = (Inr info, cx, logx)"
  then show "\<exists>this'. fst (BuildBackendAndGraph env operator_def this pp model weights c log) = Inr this'"
    by (auto simp: BuildBackendAndGraph_def Let_def split: prod.splits)
qed (use creator_log [of lib' pp idx model weights log r log'] in blast)+

theorem C4_status_discipline_witness:
  "creator example_lib_release_fails [ONNXIFI_BACKEND_PROPERTY_NONE] 0 ''M'' [] []
     = (Inr \<lparr>backend_id = 11, backend = 111, graph = 1111, lib = example_lib_release_fails\<rparr>,
        [(onnxGetBackendIDs_call None 0, ONNXIFI_STATUS_FALLBACK),
         (onnxGetBackendIDs_call (Some 2) 2, ONNXIFI_STATUS_SUCCESS),
         (onnxInitBackend_call 11 [ONNXIFI_BACKEND_PROPERTY_NONE], ONNXIFI_STATUS_SUCCESS),
         (onnxReleaseBackendID_call 12, 2),
         (onnxInitGraph_call 111 ''M'' [], ONNXIFI_STATUS_SUCCESS)])
   \<and> accepted (onnxReleaseBackendID_call 12, 2)
   \<and> accepted (onnxInitGraph_call 111 ''M'' [], ONNXIFI_STATUS_SUCCESS)
   \<and> creator example_lib_count_success [ONNXIFI_BACKEND_PROPERTY_NONE] 0 ''M'' [] []
     = (Inl (EnforceFailed ''onnxGetBackendIDs(nullptr) == FALLBACK''),
        [(onnxGetBackendIDs_call None 0, ONNXIFI_STATUS_SUCCESS)])
   \<and> \<not> accepted (onnxGetBackendIDs_call None 0, ONNXIFI_STATUS_SUCCESS)
   \<and> isl (Inl (EnforceFailed ''onnxGetBackendIDs(nullptr) == FALLBACK'') :: error + BackendGraphInfo)
   \<and> lib_' example_members_no_extension = Some example_lib_no_extension
   \<and> \<not> isl (fst (BuildBackendAndGraph example_env example_def example_members_no_extension
             [ONNXIFI_BACKEND_PROPERTY_NONE] ''M'' [] () []))"
proof -
  have l: "lib_' example_members_no_extension = Some example_lib_no_extension"
    by (simp add: example_members_no_extension_def)
  have na: "\<not> accepted (onnxGetBackendIDs_call None 0, ONNXIFI_STATUS_SUCCESS)"
    by (simp add: ONNXIFI_STATUS_SUCCESS_def ONNXIFI_STATUS_FALLBACK_def)
  from C4_status_discipline [where lib' = example_lib_release_fails
      and pp = "[ONNXIFI_BACKEND_PROPERTY_NONE]" and idx = 0 and model = "''M''"
      and weights = "[]" and log = "[]"
      and r = "Inr \<lparr>backend_id = 11, backend = 111, graph = 1111, lib = example_lib_release_fails\<rparr>"
      and log' = "[(onnxGetBackendIDs_call None 0, ONNXIFI_STATUS_FALLBACK),
         (onnxGetBackendIDs_call (Some 2) 2, ONNXIFI_STATUS_SUCCESS),
         (onnxInitBackend_call 11 [ONNXIFI_BACKEND_PROPERTY_NONE], ONNXIFI_STATUS_SUCCESS),
         (onnxReleaseBackendID_call 12, 2),
         (onnxInitGraph_call 111 ''M'' [], ONNXIFI_STATUS_SUCCESS)]"]
    example_creator_release_fails
  have a: "accepted (onnxReleaseBackendID_call 12, 2)
     \<and> accepted (onnxInitGraph_call 111 ''M'' [], ONNXIFI_STATUS_SUCCESS)"
    by simp
  from C4_status_discipline [where lib' = example_lib_no_extension
      and this = example_members_no_extension and env = example_env
      and operator_def = example_def and pp = "[ONNXIFI_BACKEND_PROPERTY_NONE]"
      and model = "''M''" and weights = "[]" and c = "()" and log = "[]" and cx = "()"
      and logx = "take 5 example_log" and idx = 0 and r = "Inl LengthError" and log' = "[]"
      and info = "\<lparr>backend_id = 11, backend = 111, graph = 1111, lib = example_lib_no_extension\<rparr>"]
    l example_insert_no_extension
  have b: "\<not> isl (fst (BuildBackendAndGraph example_env example_def example_members_no_extension
             [ONNXIFI_BACKEND_PROPERTY_NONE] ''M'' [] () []))"
    by auto
  from example_creator_release_fails a example_creator_count_success na l b
  show ?thesis by simp
qed

section \<open>The extension probe\<close>

text \<open>
  Claim C8 says that the operator probes the library for the extension after the bundle
  is obtained. The probe is compiled only under \<^verbatim>\<open>ONNXIFI_ENABLE_EXT\<close>: in a build without
  it the construction makes no probe, although the library offers the extension.
\<close>

theorem C8_no_probe_without_extension_build:
  "OnnxifiOp example_env_no_ext example_def () () [] =
     (Inr (example_this\<lparr>onnxSetIOAndRunGraphPointer_' := nullptr\<rparr>), (), take 5 example_log)"
  by (simp add: OnnxifiOp_def BuildBackendAndGraph_def example_creator example_env_def
      example_env_no_ext_def example_def_def
      example_this_def example_log_def
      GetSingleArgument_string_def GetRepeatedArgument_string_def GetRepeatedArgument_int_def
      GetSingleArgument_int_def c10_str_def decimal.simps emplace_def BuildPropertyList_def
      OnnxifiOp_members_init_def op_id_string_def hint_dims.simps Let_def nullptr_def
      ONNXIFI_STATUS_SUCCESS_def ONNXIFI_STATUS_FALLBACK_def)

text \<open>
  Claim C8, amended. In a build with \<^verbatim>\<open>ONNXIFI_ENABLE_EXT\<close>, once the bundle is obtained the
  operator probes the library for \<^verbatim>\<open>onnxSetIOAndRunGraphFunction\<close> on the bundle's backend
  identity, as the call that follows \<^verbatim>\<open>insert\<close>; on success the returned pointer is
  recorded, otherwise the pointer is null, and construction succeeds either way. In a
  build without it no probe is made and construction succeeds as well.
\<close>

theorem C8_extension_probe:
  "(OnnxifiOp env operator_def wsp c log = (Inr this, c', log') \<longrightarrow>
     (\<exists>lib' info log1 create.
         lib_' this = Some lib' \<and> backend_graph_shared_ptr_' this = Some info
       \<and> backend_id_' this = backend_id info
       \<and> graph_map_insert env (op_id_string_' this) create c log = (Inr info, c', log1)
       \<and> (if ONNXIFI_ENABLE_EXT env then
             (\<exists>st p. onnxGetExtensionFunctionAddress lib' log1 (backend_id info)
                        ''onnxSetIOAndRunGraphFunction'' = (st, p)
                    \<and> log' = log1 @ [(onnxGetExtensionFunctionAddress_call (backend_id info)
                                         ''onnxSetIOAndRunGraphFunction'', st)]
                    \<and> onnxSetIOAndRunGraphPointer_' this
                        = (if st = ONNXIFI_STATUS_SUCCESS then p else nullptr))
           else log' = log1 \<and> onnxSetIOAndRunGraphPointer_' this = nullptr)))
   \<and> (lib_' members = Some libx
      \<and> graph_map_insert env
           (op_id_string (GetSingleArgument_string operator_def ''model_id'' [])
              (GetSingleArgument_string operator_def ''net_pos'' []))
           (creator libx pp (GetSingleArgument_int operator_def ''backend_id'' 0) model weights)
           c log = (Inr handles, cx, logx)
      \<and> onnxGetExtensionFunctionAddress libx logx (backend_id handles)
           ''onnxSetIOAndRunGraphFunction'' = (status, ptr) \<longrightarrow>
      BuildBackendAndGraph env operator_def members pp model weights c log =
       (if ONNXIFI_ENABLE_EXT env then
          (Inr (members\<lparr>op_id_string_' :=
                     op_id_string (GetSingleArgument_string operator_def ''model_id'' [])
                       (GetSingleArgument_string operator_def ''net_pos'' []),
                   backend_graph_shared_ptr_' := Some handles, backend_id_' := backend_id handles,
                   backend_' := backend handles, graph_' := graph handles,
                   onnxSetIOAndRunGraphPointer_' :=
                     (if status = ONNXIFI_STATUS_SUCCESS then ptr else nullptr)\<rparr>),
           cx,
           logx @ [(onnxGetExtensionFunctionAddress_call (backend_id handles)
                      ''onnxSetIOAndRunGraphFunction'', status)])
        else
          (Inr (members\<lparr>op_id_string_' :=
                     op_id_string (GetSingleArgument_string operator_def ''model_id'' [])
                       (GetSingleArgument_string operator_def ''net_pos'' []),
                   backend_graph_shared_ptr_' := Some handles, backend_id_' := backend_id handles,
                   backend_' := backend handles, graph_' := graph handles\<rparr>),
           cx, logx)))"
proof (intro conjI impI)
  assume "OnnxifiOp env operator_def wsp c log = (Inr this, c', log')"
  from OnnxifiOp_obtained [OF this]
  show "\<exists>lib' info log1 create.
         lib_' this = Some lib' \<and> backend_graph_shared_ptr_' this = Some info
       \<and> backend_id_' this = backend_id info
       \<and> graph_map_insert env (op_id_string_' this) create c log = (Inr info, c', log1)
       \<and> (if ONNXIFI_ENABLE_EXT env then
             (\<exists>st p. onnxGetExtensionFunctionAddress lib' log1 (backend_id info)
                        ''onnxSetIOAndRunGraphFunction'' = (st, p)
                    \<and> log' = log1 @ [(onnxGetExtensionFunctionAddress_call (backend_id info)
                                         ''onnxSetIOAndRunGraphFunction'', st)]
                    \<and> onnxSetIOAndRunGraphPointer_' this
                        = (if st = ONNXIFI_STATUS_SUCCESS then p else nullptr))
           else log' = log1 \<and> onnxSetIOAndRunGraphPointer_' this = nullptr)"
    by blast
next
  assume a: "lib_' members = Some libx
      \<and> graph_map_insert env
           (op_id_string (GetSingleArgument_string operator_def ''model_id'' [])
              (GetSingleArgument_string operator_def ''net_pos'' []))
           (creator libx pp (GetSingleArgument_int operator_def ''backend_id'' 0) model weights)
           c log = (Inr handles, cx, logx)
      \<and> onnxGetExtensionFunctionAddress libx logx (backend_id handles)
           ''onnxSetIOAndRunGraphFunction'' = (status, ptr)"
  show "BuildBackendAndGraph env operator_def members pp model weights c log =
       (if ONNXIFI_ENABLE_EXT env then
          (Inr (members\<lparr>op_id_string_' :=
                     op_id_string (GetSingleArgument_string operator_def ''model_id'' [])
                       (GetSingleArgument_string operator_def ''net_pos'' []),
                   backend_graph_shared_ptr_' := Some handles, backend_id_' := backend_id handles,
                   backend_' := backend handles, graph_' := graph handles,
                   onnxSetIOAndRunGraphPointer_' :=
                     (if status = ONNXIFI_STATUS_SUCCESS then ptr else nullptr)\<rparr>),
           cx,
           logx @ [(onnxGetExtensionFunctionAddress_call (backend_id handles)
                      ''onnxSetIOAndRunGraphFunction'', status)])
        else
          (Inr (members\<lparr>op_id_string_' :=
                     op_id_string (GetSingleArgument_string operator_def ''model_id'' [])
                       (GetSingleArgument_string operator_def ''net_pos'' []),
                   backend_graph_shared_ptr_' := Some handles, backend_id_' := backend_id handles,
                   backend_' := backend handles, graph_' := graph handles\<rparr>),
           cx, logx))"
    by (rule BuildBackendAndGraph_probe) (use a in blast)+
qed

theorem C8_extension_probe_witness:
  "OnnxifiOp example_env example_def () () [] = (Inr example_this, (), example_log)
   \<and> ONNXIFI_ENABLE_EXT example_env
   \<and> onnxSetIOAndRunGraphPointer_' example_this = 77
   \<and> last example_log
       = (onnxGetExtensionFunctionAddress_call 11 ''onnxSetIOAndRunGraphFunction'', ONNXIFI_STATUS_SUCCESS)
   \<and> lib_' example_members_no_extension = Some example_lib_no_extension
   \<and> onnxGetExtensionFunctionAddress example_lib_no_extension (take 5 example_log) 11
        ''onnxSetIOAndRunGraphFunction'' = (2, 5)
   \<and> (2 :: onnxStatus) \<noteq> ONNXIFI_STATUS_SUCCESS
   \<and> fst (BuildBackendAndGraph example_env example_def example_members_no_extension
             [ONNXIFI_BACKEND_PROPERTY_NONE] ''M'' [] () [])
       = Inr (example_members_no_extension
               \<lparr>op_id_string_' := ''m:0'',
                backend_graph_shared_ptr_' :=
                  Some \<lparr>backend_id = 11, backend = 111, graph = 1111, lib = example_lib_no_extension\<rparr>,
                backend_id_' := 11, backend_' := 111, graph_' := 1111,
                onnxSetIOAndRunGraphPointer_' := nullptr\<rparr>)
   \<and> snd (snd (BuildBackendAndGraph example_env example_def example_members_no_extension
             [ONNXIFI_BACKEND_PROPERTY_NONE] ''M'' [] () []))
       = take 5 example_log
           @ [(onnxGetExtensionFunctionAddress_call 11 ''onnxSetIOAndRunGraphFunction'', 2)]"
proof -
  note ok = example_construction
  have ext: "ONNXIFI_ENABLE_EXT example_env" by (simp add: example_env_def)
  have l: "lib_' example_members_no_extension = Some example_lib_no_extension"
    by (simp add: example_members_no_extension_def)
  have pr: "onnxGetExtensionFunctionAddress example_lib_no_extension (take 5 example_log) 11
        ''onnxSetIOAndRunGraphFunction'' = (2, 5)"
    by (simp add: example_lib_no_extension_def)
  have ne: "(2 :: onnxStatus) \<noteq> ONNXIFI_STATUS_SUCCESS" by (simp add: ONNXIFI_STATUS_SUCCESS_def)
  have key: "op_id_string (GetSingleArgument_string example_def ''model_id'' [])
        (GetSingleArgument_string example_def ''net_pos'' []) = ''m:0''"
    by (simp add: example_def_def GetSingleArgument_string_def op_id_string_def)
  from C8_extension_probe [where env = example_env and operator_def = example_def
      and wsp = "()" and c = "()" and log = "[]" and this = example_this and c' = "()"
      and log' = example_log] ok ext
  have a: "onnxSetIOAndRunGraphPointer_' example_this = 77
   \<and> last example_log
       = (onnxGetExtensionFunctionAddress_call 11 ''onnxSetIOAndRunGraphFunction'', ONNXIFI_STATUS_SUCCESS)"
    by (simp add: example_this_def example_log_def)
  from C8_extension_probe [where env = example_env and operator_def = example_def
      and members = example_members_no_extension and libx = example_lib_no_extension
      and pp = "[ONNXIFI_BACKEND_PROPERTY_NONE]" and model = "''M''" and weights = "[]"
      and c = "()" and log = "[]" and cx = "()" and logx = "take 5 example_log"
      and handles = "\<lparr>backend_id = 11, backend = 111, graph = 1111, lib = example_lib_no_extension\<rparr>"
      and status = 2 and ptr = 5]
    l example_insert_no_extension pr ne ext
  have b: "BuildBackendAndGraph example_env example_def example_members_no_extension
             [ONNXIFI_BACKEND_PROPERTY_NONE] ''M'' [] () [] =
     (Inr (example_members_no_extension
               \<lparr>op_id_string_' := ''m:0'',
                backend_graph_shared_ptr_' :=
                  Some \<lparr>backend_id = 11, backend = 111, graph = 1111, lib = example_lib_no_extension\<rparr>,
                backend_id_' := 11, backend_' := 111, graph_' := 1111,
                onnxSetIOAndRunGraphPointer_' := nullptr\<rparr>), (),
      take 5 example_log
           @ [(onnxGetExtensionFunctionAddress_call 11 ''onnxSetIOAndRunGraphFunction'', 2)])"
    by (simp add: key)
  from ok ext a l pr ne b show ?thesis by simp
qed

section \<open>The shared map of the specification\<close>

lemma get_or_create_Inr:
  assumes "get_or_create key create c log = (Inr info, c', log')"
  shows "(\<exists>refs. c key = Some (info, refs) \<and> c' = c(key \<mapsto> (info, refs + 1)) \<and> log' = log)
       \<or> (c key = None \<and> create log = (Inr info, log') \<and> c' = c(key \<mapsto> (info, 1)))"
  using assms
  by (auto simp: get_or_create_def split: option.splits prod.splits sum.splits)

lemma creator_compiles_once:
  assumes "creator lib' pp idx model weights log = (Inr info, log')"
  shows "log' = log @ drop (length log) log'
       \<and> length (filter compiles (map fst (drop (length log) log'))) = 1"
proof -
  from creator_log [OF assms] have pre: "log' = log @ drop (length log) log'" by blast
  from creator_Inr [OF assms] obtain n ws n' b rel where
    m: "map fst log' = map fst log @
          [onnxGetBackendIDs_call None 0, onnxGetBackendIDs_call (Some (unat n)) n,
           onnxInitBackend_call
              (written_into (replicate (unat n) nullptr) ws ! unat (scast idx :: 64 word)) pp]
          @ map (\<lambda>j. onnxReleaseBackendID_call (written_into (replicate (unat n) nullptr) ws ! j)) rel
          @ [onnxInitGraph_call b model weights]"
    by blast
  have "map fst (drop (length log) log') = drop (length (map fst log)) (map fst log')"
    by (simp add: drop_map)
  also have "\<dots> = [onnxGetBackendIDs_call None 0, onnxGetBackendIDs_call (Some (unat n)) n,
           onnxInitBackend_call
              (written_into (replicate (unat n) nullptr) ws ! unat (scast idx :: 64 word)) pp]
          @ map (\<lambda>j. onnxReleaseBackendID_call (written_into (replicate (unat n) nullptr) ws ! j)) rel
          @ [onnxInitGraph_call b model weights]"
    unfolding m by simp
  finally have "filter compiles (map fst (drop (length log) log')) = [onnxInitGraph_call b model weights]"
    by (simp add: filter_map comp_def)
  with pre show ?thesis by simp
qed

lemma OnnxifiOp_inserted:
  assumes "OnnxifiOp env operator_def wsp c log = (Inr this, c', log')"
  shows "\<exists>lib' info logx pp model weights.
       lib_' this = Some lib' \<and> backend_graph_shared_ptr_' this = Some info
     \<and> backend_id_' this = backend_id info \<and> backend_' this = backend info
     \<and> graph_' this = graph info
     \<and> graph_map_insert env (op_id_string_' this)
           (creator lib' pp (GetSingleArgument_int operator_def ''backend_id'' 0) model weights)
           c log = (Inr info, c', logx)
     \<and> log' = logx @ drop (length logx) log'
     \<and> (\<forall>ev\<in>set (drop (length logx) log').
           \<exists>b nm. fst ev = onnxGetExtensionFunctionAddress_call b nm)"
proof -
  from OnnxifiOp_built [OF assms] obtain members pp model weights where
    b: "BuildBackendAndGraph env operator_def members pp model weights c log = (Inr this, c', log')"
    by blast
  from BuildBackendAndGraph_Inr [OF b] show ?thesis
    by (auto split: if_splits) fastforce+
qed

lemma example_shared_first:
  "OnnxifiOp example_shared_env example_def () Map.empty [] =
     (Inr example_this, [''m:0'' \<mapsto> (example_info, 1)], example_log)"
  by (simp add: OnnxifiOp_def BuildBackendAndGraph_def get_or_create_def example_creator
      example_shared_env_def example_def_def example_info_def
      example_this_def example_log_def example_lib_probe
      GetSingleArgument_string_def GetRepeatedArgument_string_def GetRepeatedArgument_int_def
      GetSingleArgument_int_def c10_str_def decimal.simps emplace_def BuildPropertyList_def
      OnnxifiOp_members_init_def op_id_string_def hint_dims.simps Let_def nullptr_def
      ONNXIFI_STATUS_SUCCESS_def ONNXIFI_STATUS_FALLBACK_def)

lemma example_shared_second:
  "OnnxifiOp example_shared_env example_def () [''m:0'' \<mapsto> (example_info, 1)] example_log =
     (Inr example_this, [''m:0'' \<mapsto> (example_info, 2)], example_log @ [example_probe])"
  by (simp add: OnnxifiOp_def BuildBackendAndGraph_def get_or_create_def
      example_shared_env_def example_def_def example_info_def example_probe_def
      example_this_def example_lib_probe
      GetSingleArgument_string_def GetRepeatedArgument_string_def GetRepeatedArgument_int_def
      GetSingleArgument_int_def c10_str_def decimal.simps emplace_def BuildPropertyList_def
      OnnxifiOp_members_init_def op_id_string_def hint_dims.simps Let_def nullptr_def
      ONNXIFI_STATUS_SUCCESS_def ONNXIFI_STATUS_FALLBACK_def numeral_2_eq_2)

section \<open>Sharing one bundle\<close>

text \<open>
  Claim C1, on the shared map as the specification words it (\<open>get_or_create\<close>,
  \<open>release\<close>). Two operators constructed one after the other with equal keys hold the
  same bundle and the same handles; the second construction makes no call into the
  library but the extension probe, and both together compile at most one graph; and
  destroying the first releases nothing: the destructor makes no call, and the entry
  stays in the map with the bundle the second operator holds and a positive count.
\<close>

theorem C1_shared_bundle:
  assumes env: "graph_map_insert env = get_or_create" "graph_map_remove env = release"
    and first: "OnnxifiOp env operator_def_a ws_a c log = (Inr op_a, c_a, log_a)"
    and second: "OnnxifiOp env operator_def_b ws_b c_a log_a = (Inr op_b, c_b, log_b)"
    and key: "op_id_string_' op_a = op_id_string_' op_b"
  shows "\<exists>info refs.
       backend_graph_shared_ptr_' op_a = Some info \<and> backend_graph_shared_ptr_' op_b = Some info
     \<and> backend_id_' op_b = backend_id_' op_a \<and> backend_' op_b = backend_' op_a
     \<and> graph_' op_b = graph_' op_a
     \<and> log_b = log_a @ drop (length log_a) log_b
     \<and> (\<forall>ev\<in>set (drop (length log_a) log_b).
           \<exists>b nm. fst ev = onnxGetExtensionFunctionAddress_call b nm)
     \<and> length (filter compiles (map fst (drop (length log) log_b))) \<le> 1
     \<and> c_b (op_id_string_' op_a) = Some (info, refs) \<and> 2 \<le> refs
     \<and> OnnxifiOp_destructor env op_a c_b log_b
         = (Inr (), c_b(op_id_string_' op_a \<mapsto> (info, refs - 1)), log_b)"
proof -
  let ?key = "op_id_string_' op_a"
  let ?probe = "\<lambda>ev :: abi_call \<times> onnxStatus. \<exists>b nm. fst ev = onnxGetExtensionFunctionAddress_call b nm"
  from OnnxifiOp_inserted [OF first] obtain lib_a info logx pp model weights where
    a: "backend_graph_shared_ptr_' op_a = Some info" "backend_id_' op_a = backend_id info"
       "backend_' op_a = backend info" "graph_' op_a = graph info"
       "get_or_create ?key
          (creator lib_a pp (GetSingleArgument_int operator_def_a ''backend_id'' 0) model weights)
          c log = (Inr info, c_a, logx)"
       "log_a = logx @ drop (length logx) log_a"
       "\<forall>ev\<in>set (drop (length logx) log_a). ?probe ev"
    unfolding env by blast
  from OnnxifiOp_inserted [OF second] obtain lib_b info_b logy pp_b model_b weights_b where
    b: "backend_graph_shared_ptr_' op_b = Some info_b" "backend_id_' op_b = backend_id info_b"
       "backend_' op_b = backend info_b" "graph_' op_b = graph info_b"
       "get_or_create ?key
          (creator lib_b pp_b (GetSingleArgument_int operator_def_b ''backend_id'' 0) model_b weights_b)
          c_a log_a = (Inr info_b, c_b, logy)"
       "log_b = logy @ drop (length logy) log_b"
       "\<forall>ev\<in>set (drop (length logy) log_b). ?probe ev"
    unfolding env key by blast
  \<comment> \<open>the first construction leaves an entry for the key, created at most once\<close>
  from get_or_create_Inr [OF a(5)]
  have "\<exists>refs. c_a ?key = Some (info, refs) \<and> 1 \<le> refs" by auto
  then obtain refs where ca: "c_a ?key = Some (info, refs)" "1 \<le> refs" by blast
  from get_or_create_Inr [OF a(5)]
  have once: "logx = log @ drop (length log) logx
      \<and> length (filter compiles (map fst (drop (length log) logx))) \<le> 1"
  proof
    assume "\<exists>refs. c ?key = Some (info, refs) \<and> c_a = c(?key \<mapsto> (info, refs + 1)) \<and> logx = log"
    then show ?thesis by auto
  next
    assume "c ?key = None
      \<and> creator lib_a pp (GetSingleArgument_int operator_def_a ''backend_id'' 0) model weights log
          = (Inr info, logx)
      \<and> c_a = c(?key \<mapsto> (info, 1))"
    then show ?thesis using creator_compiles_once by fastforce
  qed
  \<comment> \<open>the second construction finds it\<close>
  from get_or_create_Inr [OF b(5)] ca
  have hit: "info_b = info" "c_b = c_a(?key \<mapsto> (info, refs + 1))" "logy = log_a"
    by auto
  have probes: "\<And>xs. \<forall>ev\<in>set xs. ?probe ev \<Longrightarrow> filter compiles (map fst xs) = []"
    by (auto simp: filter_empty_conv)
  have la: "log_a = log @ drop (length log) logx @ drop (length logx) log_a"
    using a(6) once by (metis append.assoc)
  have lb: "log_b = log @ drop (length log) logx @ drop (length logx) log_a
                @ drop (length log_a) log_b"
    using b(6) la unfolding hit(3) by (metis append.assoc)
  have "drop (length log) log_b = drop (length log) logx @ drop (length logx) log_a
                @ drop (length log_a) log_b"
    by (subst lb) simp
  then have count: "length (filter compiles (map fst (drop (length log) log_b))) \<le> 1"
    using once probes [OF a(7)] probes [of "drop (length log_a) log_b"] b(7)
    unfolding hit(3) by simp
  have destroy: "OnnxifiOp_destructor env op_a c_b log_b
         = (Inr (), c_b(?key \<mapsto> (info, refs + 1 - 1)), log_b)"
    using ca(2) by (simp add: OnnxifiOp_destructor_def env release_def hit(2))
  show ?thesis
    apply (rule exI [of _ info], rule exI [of _ "refs + 1"])
    using a b(1-4) b(6,7) hit count ca destroy by simp
qed

theorem C1_shared_bundle_witness:
  "graph_map_insert example_shared_env = get_or_create
   \<and> graph_map_remove example_shared_env = release
   \<and> OnnxifiOp example_shared_env example_def () Map.empty [] =
       (Inr example_this, [''m:0'' \<mapsto> (example_info, 1)], example_log)
   \<and> OnnxifiOp example_shared_env example_def () [''m:0'' \<mapsto> (example_info, 1)] example_log =
       (Inr example_this, [''m:0'' \<mapsto> (example_info, 2)], example_log @ [example_probe])
   \<and> backend_graph_shared_ptr_' example_this = Some example_info
   \<and> length (filter compiles (map fst (example_log @ [example_probe]))) \<le> 1
   \<and> OnnxifiOp_destructor example_shared_env example_this [''m:0'' \<mapsto> (example_info, 2)]
         (example_log @ [example_probe])
       = (Inr (), [''m:0'' \<mapsto> (example_info, 1)], example_log @ [example_probe])"
proof -
  have e: "graph_map_insert example_shared_env = get_or_create"
    "graph_map_remove example_shared_env = release"
    by (simp_all add: example_shared_env_def)
  have k: "op_id_string_' example_this = ''m:0''" by (simp add: example_this_def)
  from C1_shared_bundle [OF e example_shared_first example_shared_second refl]
  obtain info refs where
    r: "backend_graph_shared_ptr_' example_this = Some info"
       "length (filter compiles (map fst (drop (length ([] :: abi_log))
          (example_log @ [example_probe])))) \<le> 1"
       "[''m:0'' \<mapsto> (example_info, 2 :: nat)] (op_id_string_' example_this) = Some (info, refs)"
       "OnnxifiOp_destructor example_shared_env example_this [''m:0'' \<mapsto> (example_info, 2)]
         (example_log @ [example_probe])
       = (Inr (), [''m:0'' \<mapsto> (example_info, 2)](op_id_string_' example_this \<mapsto> (info, refs - 1)),
          example_log @ [example_probe])"
    by blast
  from r(3) have i: "info = example_info" "refs = 2" by (simp_all add: k)
  from r(4) have d: "OnnxifiOp_destructor example_shared_env example_this
         [''m:0'' \<mapsto> (example_info, 2)] (example_log @ [example_probe])
       = (Inr (), [''m:0'' \<mapsto> (example_info, 1)], example_log @ [example_probe])"
    by (simp add: i k)
  from e example_shared_first example_shared_second r(1) r(2) d i show ?thesis by simp
qed

end
